theory Spec2Isabelle
  imports Main
begin

section \<open>JavaScript helpers used by the store and the API routes\<close>

text \<open>
  Strings are the lists of the bytes of their UTF-8 text, so a character outside ASCII
  takes more than one \<^typ>\<open>char\<close>; prefixes, substrings and equality are the same on the
  bytes as on the text. Numbers that the program only ever uses as integers (page numbers,
  page sizes, millisecond timestamps) are \<^typ>\<open>int\<close>; where a JavaScript operation can
  produce \<open>NaN\<close> the result is an \<^typ>\<open>int option\<close> with \<open>None\<close> for \<open>NaN\<close>.
\<close>

definition digit_char :: "nat \<Rightarrow> char" where
  "digit_char d = ''0123456789'' ! d"

function string_of_nat :: "nat \<Rightarrow> string" where
  "string_of_nat n =
     (if n < 10 then [digit_char n]
      else string_of_nat (n div 10) @ [digit_char (n mod 10)])"
  by pat_completeness auto
termination
  by (relation "measure (\<lambda>n. n)") auto

declare string_of_nat.simps [simp del]

text \<open>
  \<open>Number.prototype.toString\<close> on an integer: decimal digits, a minus sign first. That
  is what the code prints for a magnitude below \<open>10^21\<close>, which includes every integer
  that a number holds exactly; from \<open>10^21\<close> on the code prints an exponent.
\<close>

definition toString :: "int \<Rightarrow> string" where
  "toString i = (if i < 0 then CHR ''-'' # string_of_nat (nat (- i)) else string_of_nat (nat i))"

text \<open>\<open>s.startsWith(p)\<close>.\<close>

definition startsWith :: "string \<Rightarrow> string \<Rightarrow> bool" where
  "startsWith s p = (take (length p) s = p)"

text \<open>\<open>x || ""\<close> on an optional string: \<open>undefined\<close> and the empty string both give \<open>""\<close>.\<close>

definition or_empty :: "string option \<Rightarrow> string" where
  "or_empty x = (case x of None \<Rightarrow> [] | Some s \<Rightarrow> s)"

text \<open>\<open>n || d\<close> on an optional number: \<open>undefined\<close> and \<open>0\<close> both give the default.\<close>

definition or_num :: "int option \<Rightarrow> int \<Rightarrow> int" where
  "or_num x d = (case x of None \<Rightarrow> d | Some n \<Rightarrow> if n = 0 then d else n)"

text \<open>A destructuring default \<open>{ page = 1 }\<close>: only \<open>undefined\<close> gives the default.\<close>

definition default_num :: "int option \<Rightarrow> int \<Rightarrow> int" where
  "default_num x d = (case x of None \<Rightarrow> d | Some n \<Rightarrow> n)"

text \<open>A string that may be absent is truthy when it is there and not empty.\<close>

definition truthy :: "string option \<Rightarrow> bool" where
  "truthy x = (case x of None \<Rightarrow> False | Some s \<Rightarrow> s \<noteq> [])"

text \<open>
  White space as \<open>String.prototype.trim\<close> and \<open>parseInt\<close> know it: the code points of
  \<open>WhiteSpace\<close> and \<open>LineTerminator\<close>, that is U+0009 to U+000D, U+0020, U+00A0, U+1680,
  U+2000 to U+200A, U+2028, U+2029, U+202F, U+205F, U+3000 and U+FEFF, each as the bytes
  of its UTF-8 encoding.
\<close>

definition white_space :: "string list" where
  "white_space =
     [[CHR 0x09], [CHR 0x0A], [CHR 0x0B], [CHR 0x0C], [CHR 0x0D], [CHR 0x20],
      [CHR 0xC2, CHR 0xA0],
      [CHR 0xE1, CHR 0x9A, CHR 0x80],
      [CHR 0xE2, CHR 0x80, CHR 0x80], [CHR 0xE2, CHR 0x80, CHR 0x81],
      [CHR 0xE2, CHR 0x80, CHR 0x82], [CHR 0xE2, CHR 0x80, CHR 0x83],
      [CHR 0xE2, CHR 0x80, CHR 0x84], [CHR 0xE2, CHR 0x80, CHR 0x85],
      [CHR 0xE2, CHR 0x80, CHR 0x86], [CHR 0xE2, CHR 0x80, CHR 0x87],
      [CHR 0xE2, CHR 0x80, CHR 0x88], [CHR 0xE2, CHR 0x80, CHR 0x89],
      [CHR 0xE2, CHR 0x80, CHR 0x8A],
      [CHR 0xE2, CHR 0x80, CHR 0xA8], [CHR 0xE2, CHR 0x80, CHR 0xA9],
      [CHR 0xE2, CHR 0x80, CHR 0xAF],
      [CHR 0xE2, CHR 0x81, CHR 0x9F],
      [CHR 0xE3, CHR 0x80, CHR 0x80],
      [CHR 0xEF, CHR 0xBB, CHR 0xBF]]"

text \<open>
  The number of bytes of the entry of \<open>ws\<close> that the string begins with, 0 when it begins
  with none; and the string without the entries of \<open>ws\<close> it begins with.
\<close>

definition ws_length :: "string list \<Rightarrow> string \<Rightarrow> nat" where
  "ws_length ws s =
     (case find (\<lambda>w. take (length w) s = w) ws of None \<Rightarrow> 0 | Some w \<Rightarrow> length w)"

function strip_start :: "string list \<Rightarrow> string \<Rightarrow> string" where
  "strip_start ws s =
     (if s = [] \<or> ws_length ws s = 0 then s
      else strip_start ws (drop (ws_length ws s) s))"
  by pat_completeness auto
termination
  by (relation "measure (\<lambda>(ws, s). length s)") auto

declare strip_start.simps [simp del]

text \<open>
  \<open>String.prototype.trim\<close>. At the end of the string the bytes are read backwards: in
  well-formed UTF-8 the bytes of a white space character that end the string are that
  character, and never the tail of another one.
\<close>

definition trim :: "string \<Rightarrow> string" where
  "trim s = rev (strip_start (map rev white_space) (rev (strip_start white_space s)))"

text \<open>
  \<open>[...new Set(xs)]\<close>: a \<open>Set\<close> keeps its elements in insertion order, and inserting an
  element that is already there changes nothing, so the spread lists every element once, at
  the place of its first occurrence.
\<close>

fun set_insert_all :: "'a list \<Rightarrow> 'a list \<Rightarrow> 'a list" where
  "set_insert_all acc [] = acc"
| "set_insert_all acc (x # xs) =
     (if x \<in> set acc then set_insert_all acc xs else set_insert_all (acc @ [x]) xs)"

definition spread_set :: "'a list \<Rightarrow> 'a list" where
  "spread_set xs = set_insert_all [] xs"

section \<open>The blog slice (src/store/blogSlice.ts)\<close>

subsection \<open>State\<close>

type_synonym Tags = string
type_synonym Topics = string

text \<open>
  The \<open>Blog\<close> type comes from the generated Prisma client; its fields are the ones the
  routes and the optimistic update write. \<open>video\<close> is nullable.
\<close>

record Blog =
  blogId :: string
  title :: string
  subTitle :: string
  content :: string
  bannerUrl :: string
  slug :: string
  video :: "string option"
  tags :: "Tags list"
  topics :: "Topics list"
  createdAt :: int
  updatedAt :: int

record Pagination =
  currentPage :: int
  totalPages :: int
  totalBlogs :: int

datatype Status = Idle | Loading | Succeeded | Failed

record BlogStatus =
  st_fetchBlogs :: Status
  st_fetchSlugBlog :: Status
  st_fetchFilteredBlogs :: Status
  st_createBlog :: Status

record BlogError =
  err_fetchBlogs :: "string option"
  err_fetchSlugBlog :: "string option"
  err_createBlog :: "string option"
  err_fetchFilteredBlogs :: "string option"

record CacheEntry =
  cached_ids :: "string list"
  timestamp :: int

record BlogState =
  entities :: "string \<rightharpoonup> Blog"
  ids :: "string list"
  slugBlogId :: "string option"
  filteredIds :: "string list"
  selectedTag :: "Tags option"
  selectedTopic :: "Topics option"
  searchQuery :: "string option"
  status :: BlogStatus
  error :: BlogError
  pagination :: Pagination
  cache :: "string \<rightharpoonup> CacheEntry"

definition CACHE_DURATION :: int where
  "CACHE_DURATION = 5 * 60 * 1000"

definition initialState :: BlogState where
  "initialState =
     \<lparr>entities = Map.empty, ids = [], slugBlogId = None, filteredIds = [],
      selectedTag = None, selectedTopic = None, searchQuery = None,
      status = \<lparr>st_fetchBlogs = Idle, st_fetchSlugBlog = Idle,
                st_fetchFilteredBlogs = Idle, st_createBlog = Idle\<rparr>,
      error = \<lparr>err_fetchBlogs = None, err_fetchSlugBlog = None,
               err_createBlog = None, err_fetchFilteredBlogs = None\<rparr>,
      pagination = \<lparr>currentPage = 1, totalPages = 1, totalBlogs = 0\<rparr>,
      cache = Map.empty\<rparr>"

subsection \<open>Thunk arguments and payloads\<close>

record FetchBlogsParams =
  arg_page :: "int option"
  arg_limit :: "int option"
  arg_tag :: "string option"
  arg_topic :: "string option"
  arg_query :: "string option"

record FilterParams =
  f_tag :: "string option"
  f_topic :: "string option"
  f_page :: "int option"
  f_limit :: "int option"

text \<open>
  A payload creator either answers from the query cache without touching the network, or it
  issues a request. The request is kept as the list of query parameters handed to
  \<open>URLSearchParams\<close>.
\<close>

datatype 'p thunk_result = CacheHit 'p | NetworkRequest "(string \<times> string) list"

record BlogsPayload =
  blogs :: "Blog list"
  pl_pagination :: Pagination

text \<open>
  The payload of \<open>fetchFilteredBlogs\<close> is either the fresh-hit answer
  \<open>{ blogs: [], pagination: [] }\<close>, whose pagination is an empty array and not a
  pagination object, or the response of the API.
\<close>

datatype FilteredPayload = Filtered_cached | Filtered_response "Blog list" Pagination

fun fblogs :: "FilteredPayload \<Rightarrow> Blog list" where
  "fblogs Filtered_cached = []"
| "fblogs (Filtered_response bs pg) = bs"

subsection \<open>Query cache and the payload creators\<close>

definition blogs_cacheKey :: "int \<Rightarrow> int \<Rightarrow> string option \<Rightarrow> string option \<Rightarrow> string option \<Rightarrow> string" where
  "blogs_cacheKey page limit tag topic query =
     ''blogs:'' @ toString page @ '':'' @ toString limit @ '':'' @ or_empty tag
       @ '':'' @ or_empty topic @ '':'' @ or_empty query"

definition filter_cacheKey :: "string option \<Rightarrow> string option \<Rightarrow> int \<Rightarrow> int \<Rightarrow> string" where
  "filter_cacheKey tag topic page limit =
     ''filter:tag:'' @ or_empty tag @ '':topic:'' @ or_empty topic @ '':'' @ toString page
       @ '':'' @ toString limit"

text \<open>\<open>cache && Date.now() - cache.timestamp < CACHE_DURATION\<close>\<close>

definition cache_fresh :: "CacheEntry option \<Rightarrow> int \<Rightarrow> bool" where
  "cache_fresh c now = (case c of None \<Rightarrow> False | Some e \<Rightarrow> now - timestamp e < CACHE_DURATION)"

text \<open>\<open>if (tag) queryParams.set("tag", tag)\<close>\<close>

definition set_if_truthy :: "string \<Rightarrow> string option \<Rightarrow> (string \<times> string) list \<Rightarrow> (string \<times> string) list" where
  "set_if_truthy k v ps = (case v of None \<Rightarrow> ps | Some s \<Rightarrow> if s = [] then ps else ps @ [(k, s)])"

definition fetchBlogs :: "BlogState \<Rightarrow> FetchBlogsParams \<Rightarrow> int \<Rightarrow> BlogsPayload thunk_result" where
  "fetchBlogs st a now =
     (let page = default_num (arg_page a) 1;
          limit = default_num (arg_limit a) 10;
          cacheKey = blogs_cacheKey page limit (arg_tag a) (arg_topic a) (arg_query a)
      in if cache_fresh (cache st cacheKey) now
         then CacheHit \<lparr>blogs = [], pl_pagination = pagination st\<rparr>
         else NetworkRequest
                (set_if_truthy ''q'' (arg_query a)
                  (set_if_truthy ''topic'' (arg_topic a)
                    (set_if_truthy ''tag'' (arg_tag a)
                      [(''page'', toString page), (''limit'', toString limit)]))))"

definition fetchFilteredBlogs :: "BlogState \<Rightarrow> FilterParams \<Rightarrow> int \<Rightarrow> FilteredPayload thunk_result" where
  "fetchFilteredBlogs st a now =
     (let page = default_num (f_page a) 1;
          limit = default_num (f_limit a) 10;
          cacheKey = filter_cacheKey (f_tag a) (f_topic a) page limit
      in if cache_fresh (cache st cacheKey) now
         then CacheHit Filtered_cached
         else NetworkRequest
                [(''tag'', or_empty (f_tag a)), (''topic'', or_empty (f_topic a)),
                 (''page'', toString page), (''limit'', toString limit)])"

subsection \<open>Reducers of \<open>fetchBlogs\<close> and \<open>fetchFilteredBlogs\<close>\<close>

text \<open>
  \<open>normalize(blogs, [blogEntity])\<close>: the result is the list of ids in payload order, and the
  entity table maps each id to its record. Two records with one id in the same payload are
  merged field by field with the later one on top; every record carries every field, so the
  later record wins.
\<close>

definition normalize_result :: "Blog list \<Rightarrow> string list" where
  "normalize_result bs = map blogId bs"

fun normalize_entities :: "Blog list \<Rightarrow> (string \<rightharpoonup> Blog)" where
  "normalize_entities [] = Map.empty"
| "normalize_entities (b # bs) = [blogId b \<mapsto> b] ++ normalize_entities bs"

definition fetchBlogs_pending :: "BlogState \<Rightarrow> BlogState" where
  "fetchBlogs_pending st =
     st\<lparr>status := (status st)\<lparr>st_fetchBlogs := Loading\<rparr>,
        error := (error st)\<lparr>err_fetchBlogs := None\<rparr>\<rparr>"

definition fetchBlogs_fulfilled :: "BlogState \<Rightarrow> BlogsPayload \<Rightarrow> FetchBlogsParams \<Rightarrow> int \<Rightarrow> BlogState" where
  "fetchBlogs_fulfilled st payload a now =
     (let st1 = st\<lparr>status := (status st)\<lparr>st_fetchBlogs := Succeeded\<rparr>\<rparr>;
          st2 =
            (if length (blogs payload) > 0 then
               (let cacheKey = blogs_cacheKey (or_num (arg_page a) 1) (or_num (arg_limit a) 10)
                                 (arg_tag a) (arg_topic a) (arg_query a);
                    newIds = spread_set (ids st1 @ normalize_result (blogs payload))
                in st1\<lparr>entities := entities st1 ++ normalize_entities (blogs payload),
                       cache := (cache st1)(cacheKey \<mapsto>
                                  \<lparr>cached_ids = normalize_result (blogs payload), timestamp = now\<rparr>),
                       ids := newIds,
                       filteredIds := newIds\<rparr>)
             else st1)
      in st2\<lparr>pagination := pl_pagination payload\<rparr>)"

definition fetchBlogs_rejected :: "BlogState \<Rightarrow> string \<Rightarrow> BlogState" where
  "fetchBlogs_rejected st msg =
     st\<lparr>status := (status st)\<lparr>st_fetchBlogs := Failed\<rparr>,
        error := (error st)\<lparr>err_fetchBlogs := Some msg\<rparr>\<rparr>"

definition fetchFilteredBlogs_pending :: "BlogState \<Rightarrow> BlogState" where
  "fetchFilteredBlogs_pending st =
     st\<lparr>status := (status st)\<lparr>st_fetchFilteredBlogs := Loading\<rparr>,
        error := (error st)\<lparr>err_fetchFilteredBlogs := None\<rparr>\<rparr>"

text \<open>
  The loop over the payload writes \<open>newBlogs[blog.id] = blog\<close> and pushes the id; a later
  record with the same id overwrites the earlier one, as in \<^const>\<open>normalize_entities\<close>.
  The pagination is read from a non-empty payload only, which is a response of the API.
\<close>

definition fetchFilteredBlogs_fulfilled :: "BlogState \<Rightarrow> FilteredPayload \<Rightarrow> BlogState" where
  "fetchFilteredBlogs_fulfilled st payload =
     (let st1 = st\<lparr>status := (status st)\<lparr>st_fetchFilteredBlogs := Succeeded\<rparr>\<rparr>
      in if length (fblogs payload) > 0 then
           st1\<lparr>entities := entities st1 ++ normalize_entities (fblogs payload),
               filteredIds := map blogId (fblogs payload),
               pagination := (case payload of
                                Filtered_cached \<Rightarrow> pagination st1
                              | Filtered_response bs pg \<Rightarrow> pg)\<rparr>
         else st1)"

definition fetchFilteredBlogs_rejected :: "BlogState \<Rightarrow> string option \<Rightarrow> BlogState" where
  "fetchFilteredBlogs_rejected st msg =
     st\<lparr>status := (status st)\<lparr>st_fetchFilteredBlogs := Failed\<rparr>,
        error := (error st)\<lparr>err_fetchFilteredBlogs :=
                   Some (case msg of None \<Rightarrow> ''Failed to fetch filtered blogs''
                         | Some m \<Rightarrow> if m = [] then ''Failed to fetch filtered blogs'' else m)\<rparr>,
        filteredIds := []\<rparr>"

subsection \<open>Reducers of \<open>fetchSlugBlog\<close>\<close>

definition fetchSlugBlog_pending :: "BlogState \<Rightarrow> BlogState" where
  "fetchSlugBlog_pending st =
     st\<lparr>status := (status st)\<lparr>st_fetchSlugBlog := Loading\<rparr>,
        error := (error st)\<lparr>err_fetchSlugBlog := None\<rparr>\<rparr>"

definition fetchSlugBlog_fulfilled :: "BlogState \<Rightarrow> Blog \<Rightarrow> BlogState" where
  "fetchSlugBlog_fulfilled st payload =
     st\<lparr>status := (status st)\<lparr>st_fetchSlugBlog := Succeeded\<rparr>,
        entities := entities st ++ normalize_entities [payload],
        slugBlogId := Some (blogId payload)\<rparr>"

definition fetchSlugBlog_rejected :: "BlogState \<Rightarrow> string \<Rightarrow> BlogState" where
  "fetchSlugBlog_rejected st msg =
     st\<lparr>status := (status st)\<lparr>st_fetchSlugBlog := Failed\<rparr>,
        error := (error st)\<lparr>err_fetchSlugBlog := Some msg\<rparr>\<rparr>"

subsection \<open>Filter reducers\<close>

text \<open>
  The filter callbacks read \<open>state.entities.blogs[id].tags\<close> for every id of the ordered
  list. An id without an entity makes the read throw a \<open>TypeError\<close>; the reducer then
  produces no state.
\<close>

datatype js_error = TypeError

fun filter_ids :: "(Blog \<Rightarrow> bool) \<Rightarrow> (string \<rightharpoonup> Blog) \<Rightarrow> string list \<Rightarrow> js_error + string list" where
  "filter_ids P es [] = Inr []"
| "filter_ids P es (i # rest) =
     (case es i of
        None \<Rightarrow> Inl TypeError
      | Some b \<Rightarrow>
          (case filter_ids P es rest of
             Inl e \<Rightarrow> Inl e
           | Inr kept \<Rightarrow> Inr (if P b then i # kept else kept)))"

text \<open>\<open>xs.includes(payload)\<close> with a payload that may be \<open>null\<close>: no tag equals \<open>null\<close>.\<close>

definition includes_opt :: "string list \<Rightarrow> string option \<Rightarrow> bool" where
  "includes_opt xs payload = (case payload of None \<Rightarrow> False | Some x \<Rightarrow> x \<in> set xs)"

text \<open>
  \<open>String.prototype.toLowerCase\<close> and \<open>s.includes(q)\<close>. The letters \<open>A\<close> to \<open>Z\<close>
  are mapped and every other byte is kept: the code's result for a text that has no
  upper-case letter outside ASCII.
\<close>

definition lower_char :: "char \<Rightarrow> char" where
  "lower_char c =
     (if of_char c \<ge> (65::nat) \<and> of_char c \<le> (90::nat) then char_of (of_char c + (32::nat)) else c)"

definition toLowerCase :: "string \<Rightarrow> string" where
  "toLowerCase s = map lower_char s"

fun includes_str :: "string \<Rightarrow> string \<Rightarrow> bool" where
  "includes_str [] q = (q = [])"
| "includes_str (c # cs) q = (take (length q) (c # cs) = q \<or> includes_str cs q)"

definition setSelectedTag :: "BlogState \<Rightarrow> Tags option \<Rightarrow> js_error + BlogState" where
  "setSelectedTag st payload =
     (case filter_ids (\<lambda>b. includes_opt (tags b) payload) (entities st) (ids st) of
        Inl e \<Rightarrow> Inl e
      | Inr kept \<Rightarrow> Inr (st\<lparr>selectedTag := payload, filteredIds := kept\<rparr>))"

definition setSelectedTopic :: "BlogState \<Rightarrow> Topics option \<Rightarrow> js_error + BlogState" where
  "setSelectedTopic st payload =
     (case filter_ids (\<lambda>b. includes_opt (topics b) payload) (entities st) (ids st) of
        Inl e \<Rightarrow> Inl e
      | Inr kept \<Rightarrow> Inr (st\<lparr>selectedTopic := payload, filteredIds := kept\<rparr>))"

definition setSearchQuery :: "BlogState \<Rightarrow> string option \<Rightarrow> js_error + BlogState" where
  "setSearchQuery st payload =
     (if or_empty payload \<noteq> [] then
        (let query = toLowerCase (or_empty payload) in
         case filter_ids (\<lambda>b. includes_str (toLowerCase (title b)) query
                               \<or> includes_str (toLowerCase (subTitle b)) query)
                (entities st) (ids st) of
           Inl e \<Rightarrow> Inl e
         | Inr kept \<Rightarrow> Inr (st\<lparr>searchQuery := payload, filteredIds := kept\<rparr>))
      else Inr (st\<lparr>searchQuery := payload, filteredIds := ids st\<rparr>))"

datatype BlogAction =
    ResetBlogState
  | SetSelectedTag "Tags option"
  | SetSelectedTopic "Topics option"
  | SetSearchQuery "string option"

fun reducer :: "BlogState \<Rightarrow> BlogAction \<Rightarrow> js_error + BlogState" where
  "reducer st ResetBlogState = Inr initialState"
| "reducer st (SetSelectedTag payload) = setSelectedTag st payload"
| "reducer st (SetSelectedTopic payload) = setSelectedTopic st payload"
| "reducer st (SetSearchQuery payload) = setSearchQuery st payload"

text \<open>Dispatching actions one after the other; an action whose reducer throws ends the run.\<close>

fun dispatch_all :: "BlogState \<Rightarrow> BlogAction list \<Rightarrow> js_error + BlogState" where
  "dispatch_all st [] = Inr st"
| "dispatch_all st (act # acts) =
     (case reducer st act of Inl e \<Rightarrow> Inl e | Inr st' \<Rightarrow> dispatch_all st' acts)"

text \<open>The three selection fields, as the filter state machine of the specification reads them.\<close>

definition selection :: "BlogState \<Rightarrow> Tags option \<times> Topics option \<times> string option" where
  "selection st = (selectedTag st, selectedTopic st, searchQuery st)"

subsection \<open>Optimistic create\<close>

record CreateBlogParams =
  c_title :: string
  c_subTitle :: string
  c_content :: string
  c_bannerUrl :: string
  c_slug :: string
  c_video :: "string option"
  c_tags :: "Tags list"
  c_topics :: "Topics list"

text \<open>\<open>`temp-${Date.now()}`\<close>\<close>

definition temp_id :: "int \<Rightarrow> string" where
  "temp_id now = ''temp-'' @ toString now"

text \<open>
  The pending reducer reads the clock three times: \<open>now\<close> for the temporary id and the two
  \<open>new Date()\<close> for the timestamps of the provisional record.
\<close>

definition createBlog_pending :: "BlogState \<Rightarrow> CreateBlogParams \<Rightarrow> int \<Rightarrow> int \<Rightarrow> int \<Rightarrow> BlogState" where
  "createBlog_pending st arg now created updated =
     (let tempId = temp_id now in
      st\<lparr>status := (status st)\<lparr>st_createBlog := Loading\<rparr>,
         error := (error st)\<lparr>err_createBlog := None\<rparr>,
         entities := (entities st)(tempId \<mapsto>
            \<lparr>blogId = tempId, title = c_title arg, subTitle = c_subTitle arg,
             content = c_content arg, bannerUrl = c_bannerUrl arg, slug = c_slug arg,
             video = c_video arg, tags = c_tags arg, topics = c_topics arg,
             createdAt = created, updatedAt = updated\<rparr>),
         ids := tempId # ids st,
         filteredIds := tempId # filteredIds st\<rparr>)"

text \<open>\<open>state.ids.find((id) => id.startsWith("temp-"))\<close>, then \<open>if (tempId)\<close>.\<close>

definition find_temp :: "string list \<Rightarrow> string option" where
  "find_temp xs =
     (case find (\<lambda>i. startsWith i ''temp-'') xs of
        None \<Rightarrow> None
      | Some t \<Rightarrow> if t = [] then None else Some t)"

definition createBlog_fulfilled :: "BlogState \<Rightarrow> Blog \<Rightarrow> BlogState" where
  "createBlog_fulfilled st payload =
     (let st1 = st\<lparr>status := (status st)\<lparr>st_createBlog := Succeeded\<rparr>,
                   entities := entities st ++ normalize_entities [payload]\<rparr>;
          st2 = (case find_temp (ids st1) of
                   None \<Rightarrow> st1
                 | Some tempId \<Rightarrow>
                     st1\<lparr>ids := map (\<lambda>i. if i = tempId then blogId payload else i) (ids st1),
                         filteredIds := map (\<lambda>i. if i = tempId then blogId payload else i)
                                          (filteredIds st1),
                         entities := (entities st1)(tempId := None)\<rparr>)
      in st2\<lparr>pagination := (pagination st2)\<lparr>totalBlogs := totalBlogs (pagination st2) + 1\<rparr>\<rparr>)"

definition createBlog_rejected :: "BlogState \<Rightarrow> string \<Rightarrow> BlogState" where
  "createBlog_rejected st msg =
     (let st1 = st\<lparr>status := (status st)\<lparr>st_createBlog := Failed\<rparr>,
                   error := (error st)\<lparr>err_createBlog := Some msg\<rparr>\<rparr>
      in case find_temp (ids st1) of
           None \<Rightarrow> st1
         | Some tempId \<Rightarrow>
             st1\<lparr>ids := filter (\<lambda>i. i \<noteq> tempId) (ids st1),
                 filteredIds := filter (\<lambda>i. i \<noteq> tempId) (filteredIds st1),
                 entities := (entities st1)(tempId := None)\<rparr>)"

subsection \<open>The states of the slice\<close>

text \<open>
  The states that the store can hold: the initial state, and what a reducer of the slice
  makes of such a state for any action.
\<close>

inductive blog_reachable :: "BlogState \<Rightarrow> bool" where
  initial: "blog_reachable initialState"
| action: "blog_reachable st \<Longrightarrow> reducer st act = Inr st' \<Longrightarrow> blog_reachable st'"
| fetchBlogs_pending: "blog_reachable st \<Longrightarrow> blog_reachable (fetchBlogs_pending st)"
| fetchBlogs_fulfilled:
    "blog_reachable st \<Longrightarrow> blog_reachable (fetchBlogs_fulfilled st payload a now)"
| fetchBlogs_rejected: "blog_reachable st \<Longrightarrow> blog_reachable (fetchBlogs_rejected st msg)"
| fetchSlugBlog_pending: "blog_reachable st \<Longrightarrow> blog_reachable (fetchSlugBlog_pending st)"
| fetchSlugBlog_fulfilled:
    "blog_reachable st \<Longrightarrow> blog_reachable (fetchSlugBlog_fulfilled st b)"
| fetchSlugBlog_rejected:
    "blog_reachable st \<Longrightarrow> blog_reachable (fetchSlugBlog_rejected st msg)"
| createBlog_pending:
    "blog_reachable st \<Longrightarrow> blog_reachable (createBlog_pending st arg now created updated)"
| createBlog_fulfilled: "blog_reachable st \<Longrightarrow> blog_reachable (createBlog_fulfilled st b)"
| createBlog_rejected: "blog_reachable st \<Longrightarrow> blog_reachable (createBlog_rejected st msg)"
| fetchFilteredBlogs_pending:
    "blog_reachable st \<Longrightarrow> blog_reachable (fetchFilteredBlogs_pending st)"
| fetchFilteredBlogs_fulfilled:
    "blog_reachable st \<Longrightarrow> blog_reachable (fetchFilteredBlogs_fulfilled st fp)"
| fetchFilteredBlogs_rejected:
    "blog_reachable st \<Longrightarrow> blog_reachable (fetchFilteredBlogs_rejected st fmsg)"

text \<open>A run of page fetches: the fulfilled actions applied one after the other.\<close>

definition fetchBlogs_fulfilled_all ::
    "BlogState \<Rightarrow> (BlogsPayload \<times> FetchBlogsParams \<times> int) list \<Rightarrow> BlogState" where
  "fetchBlogs_fulfilled_all st acts =
     foldl (\<lambda>s (payload, a, now). fetchBlogs_fulfilled s payload a now) st acts"

section \<open>The tag slice (src/store/tagSlice.ts)\<close>

record TagPagination =
  t_currentPage :: int
  t_totalPages :: int
  t_totalBlogs :: int
  t_limit :: int

record TagStatus =
  tst_fetchBlogs :: Status
  tst_fetchAvailableTags :: Status

record TagError =
  terr_fetchBlogs :: "string option"
  terr_fetchAvailableTags :: "string option"

record TagState =
  t_entities :: "string \<rightharpoonup> Blog"
  blogIds :: "string list"
  selectedTags :: "Tags list"
  availableTags :: "Tags list"
  t_status :: TagStatus
  t_error :: TagError
  t_pagination :: TagPagination
  t_cache :: "string \<rightharpoonup> CacheEntry"

definition tag_initialState :: TagState where
  "tag_initialState =
     \<lparr>t_entities = Map.empty, blogIds = [], selectedTags = [], availableTags = [],
      t_status = \<lparr>tst_fetchBlogs = Idle, tst_fetchAvailableTags = Idle\<rparr>,
      t_error = \<lparr>terr_fetchBlogs = None, terr_fetchAvailableTags = None\<rparr>,
      t_pagination = \<lparr>t_currentPage = 1, t_totalPages = 1, t_totalBlogs = 0, t_limit = 12\<rparr>,
      t_cache = Map.empty\<rparr>"

record TagFetchParams =
  targ_tag :: "string option"
  targ_page :: "int option"
  targ_limit :: "int option"

record TagBlogsPayload =
  t_blogs :: "Blog list"
  tpl_pagination :: TagPagination

text \<open>\<open>tag || "all"\<close>\<close>

definition or_all :: "string option \<Rightarrow> string" where
  "or_all x = (case x of None \<Rightarrow> ''all'' | Some s \<Rightarrow> if s = [] then ''all'' else s)"

definition tag_cacheKey :: "string option \<Rightarrow> int \<Rightarrow> int \<Rightarrow> string" where
  "tag_cacheKey tag page limit =
     ''tag:'' @ or_all tag @ '':'' @ toString page @ '':'' @ toString limit"

definition tag_fetchBlogs :: "TagState \<Rightarrow> TagFetchParams \<Rightarrow> int \<Rightarrow> TagBlogsPayload thunk_result" where
  "tag_fetchBlogs st a now =
     (let page = default_num (targ_page a) 1;
          limit = default_num (targ_limit a) 12;
          cacheKey = tag_cacheKey (targ_tag a) page limit
      in if cache_fresh (t_cache st cacheKey) now
         then CacheHit \<lparr>t_blogs = [], tpl_pagination = t_pagination st\<rparr>
         else NetworkRequest
                (set_if_truthy ''tag'' (targ_tag a)
                   [(''page'', toString page), (''limit'', toString limit)]))"

definition tag_fetchBlogs_pending :: "TagState \<Rightarrow> TagState" where
  "tag_fetchBlogs_pending st =
     st\<lparr>t_status := (t_status st)\<lparr>tst_fetchBlogs := Loading\<rparr>,
        t_error := (t_error st)\<lparr>terr_fetchBlogs := None\<rparr>\<rparr>"

definition tag_fetchBlogs_fulfilled :: "TagState \<Rightarrow> TagBlogsPayload \<Rightarrow> TagFetchParams \<Rightarrow> int \<Rightarrow> TagState" where
  "tag_fetchBlogs_fulfilled st payload a now =
     (let st1 = st\<lparr>t_status := (t_status st)\<lparr>tst_fetchBlogs := Succeeded\<rparr>\<rparr>;
          st2 =
            (if length (t_blogs payload) > 0 then
               (let cacheKey = tag_cacheKey (targ_tag a) (or_num (targ_page a) 1)
                                 (or_num (targ_limit a) 12)
                in st1\<lparr>t_entities := t_entities st1 ++ normalize_entities (t_blogs payload),
                       t_cache := (t_cache st1)(cacheKey \<mapsto>
                                    \<lparr>cached_ids = normalize_result (t_blogs payload),
                                     timestamp = now\<rparr>),
                       blogIds := spread_set (blogIds st1 @ normalize_result (t_blogs payload))\<rparr>)
             else st1)
      in st2\<lparr>t_pagination := tpl_pagination payload\<rparr>)"

definition tag_fetchBlogs_rejected :: "TagState \<Rightarrow> string option \<Rightarrow> TagState" where
  "tag_fetchBlogs_rejected st msg =
     st\<lparr>t_status := (t_status st)\<lparr>tst_fetchBlogs := Failed\<rparr>,
        t_error := (t_error st)\<lparr>terr_fetchBlogs :=
                     Some (case msg of None \<Rightarrow> ''Unknown error'' | Some m \<Rightarrow> m)\<rparr>\<rparr>"

text \<open>
  The reducers \<open>clearTags\<close> and \<open>setPage\<close>. \<open>Object.keys(state.entities.blogs)\<close> lists
  the keys of the entity table in the order of the object, which the table as a map does
  not keep: the list is the parameter \<open>keys\<close>.
\<close>

definition clearTags :: "string list \<Rightarrow> TagState \<Rightarrow> TagState" where
  "clearTags keys st =
     st\<lparr>selectedTags := [], blogIds := keys, t_pagination := t_pagination tag_initialState\<rparr>"

definition setPage :: "TagState \<Rightarrow> int \<Rightarrow> TagState" where
  "setPage st p = st\<lparr>t_pagination := (t_pagination st)\<lparr>t_currentPage := max 1 p\<rparr>\<rparr>"

definition tag_fetchBlogs_fulfilled_all ::
    "TagState \<Rightarrow> (TagBlogsPayload \<times> TagFetchParams \<times> int) list \<Rightarrow> TagState" where
  "tag_fetchBlogs_fulfilled_all st acts =
     foldl (\<lambda>s (payload, a, now). tag_fetchBlogs_fulfilled s payload a now) st acts"

section \<open>The blogs API route (src/app/api/upload/route.ts, second module)\<close>

subsection \<open>The request body\<close>

text \<open>
  The body is whatever JSON the client sends. A number is an integer here: the route only
  tests a number for being zero, so a fraction behaves as any integer other than 0. The
  members of an object are kept in the order of the text; of two members with one key,
  \<open>JSON.parse\<close> keeps the later.
\<close>

datatype json =
    JNull
  | JBool bool
  | JNum int
  | JStr string
  | JArr "json list"
  | JObj "(string \<times> json) list"

text \<open>
  \<open>const { title, ... } = body\<close>: the value of a member, \<open>None\<close> for \<open>undefined\<close>. A
  body that is no object has none of the members; the body \<open>null\<close> cannot be destructured
  at all, which the handlers meet before they read a member.
\<close>

fun property :: "json \<Rightarrow> string \<Rightarrow> json option" where
  "property (JObj members) k = map_of (rev members) k"
| "property v k = None"

fun truthy_json :: "json option \<Rightarrow> bool" where
  "truthy_json None = False"
| "truthy_json (Some JNull) = False"
| "truthy_json (Some (JBool b)) = b"
| "truthy_json (Some (JNum n)) = (n \<noteq> 0)"
| "truthy_json (Some (JStr s)) = (s \<noteq> [])"
| "truthy_json (Some (JArr xs)) = True"
| "truthy_json (Some (JObj members)) = True"

subsection \<open>\<open>validateTagsAndTopics\<close>\<close>

text \<open>
  \<open>tags.map((tag) => tag.trim())\<close>: an element that is no string has no \<open>trim\<close>, and
  the call throws a \<open>TypeError\<close>.
\<close>

fun trim_all :: "json list \<Rightarrow> js_error + string list" where
  "trim_all [] = Inr []"
| "trim_all (JStr s # xs) =
     (case trim_all xs of Inl e \<Rightarrow> Inl e | Inr ts \<Rightarrow> Inr (trim s # ts))"
| "trim_all (x # xs) = Inl TypeError"

text \<open>
  \<open>Array.isArray(tags) ? tags.map(trim).filter((tag) => validTags.includes(tag)) : []\<close>
\<close>

definition parse_vocabulary :: "string list \<Rightarrow> json option \<Rightarrow> js_error + string list" where
  "parse_vocabulary valid v =
     (case v of
        Some (JArr xs) \<Rightarrow>
          (case trim_all xs of
             Inl e \<Rightarrow> Inl e
           | Inr ts \<Rightarrow> Inr (filter (\<lambda>t. t \<in> set valid) ts))
      | _ \<Rightarrow> Inr [])"

text \<open>
  \<open>Object.values(Tags)\<close> and \<open>Object.values(Topics)\<close> come from the generated Prisma
  client, which is not part of the sources; the two vocabularies are parameters
  \<open>validTags\<close> and \<open>validTopics\<close> of the route.
\<close>

definition validateTagsAndTopics ::
    "Tags list \<Rightarrow> Topics list \<Rightarrow> json option \<Rightarrow> json option
       \<Rightarrow> js_error + (Tags list \<times> Topics list)" where
  "validateTagsAndTopics validTags validTopics tgs tps =
     (case parse_vocabulary validTags tgs of
        Inl e \<Rightarrow> Inl e
      | Inr parsedTags \<Rightarrow>
          (case parse_vocabulary validTopics tps of
             Inl e \<Rightarrow> Inl e
           | Inr parsedTopics \<Rightarrow> Inr (parsedTags, parsedTopics)))"

subsection \<open>The table of posts\<close>

datatype response = Json_blog nat Blog | Json_error nat string

type_synonym db = "string \<rightharpoonup> Blog"

text \<open>
  Modelled from the spec: the Prisma schema and client are not part of the sources. The
  table is keyed by the unique slug. The text columns take strings and the video column a
  string or \<open>null\<close>; a value of another type is refused with an exception, here \<open>None\<close>.
  (The client also takes an object that names an operation, such as \<open>{set: ...}\<close>, in
  the place of a value of an update; the model refuses it as it refuses every object, and
  what is proved of the values stored by an update is proved for bodies whose members are
  strings, \<open>null\<close>, falsy or absent.) \<open>create\<close> stores the given columns, a missing video as \<open>null\<close>, and
  the service assigns the id and both timestamps; \<open>update\<close> overwrites the columns
  present in the data, keeps the others and stamps the update time.
\<close>

definition string_column :: "json option \<Rightarrow> string option" where
  "string_column v = (case v of Some (JStr s) \<Rightarrow> Some s | _ \<Rightarrow> None)"

definition nullable_column :: "json option \<Rightarrow> string option option" where
  "nullable_column v =
     (case v of
        None \<Rightarrow> Some None
      | Some JNull \<Rightarrow> Some None
      | Some (JStr s) \<Rightarrow> Some (Some s)
      | _ \<Rightarrow> None)"

definition findUnique :: "db \<Rightarrow> json option \<Rightarrow> Blog option option" where
  "findUnique d slg = (case string_column slg of None \<Rightarrow> None | Some s \<Rightarrow> Some (d s))"

definition prisma_create ::
    "db \<Rightarrow> string \<Rightarrow> int \<Rightarrow> json option \<Rightarrow> json option \<Rightarrow> json option \<Rightarrow> json option
       \<Rightarrow> json option \<Rightarrow> json option \<Rightarrow> Tags list \<Rightarrow> Topics list \<Rightarrow> (Blog \<times> db) option" where
  "prisma_create d newId now ttl sub cnt banner slg vid tgs tps =
     (case (string_column ttl, string_column sub, string_column cnt, string_column banner,
            string_column slg, nullable_column vid) of
        (Some t, Some s, Some c, Some b, Some sl, Some v) \<Rightarrow>
          (let row = \<lparr>blogId = newId, title = t, subTitle = s, content = c, bannerUrl = b,
                      slug = sl, video = v, tags = tgs, topics = tps,
                      createdAt = now, updatedAt = now\<rparr>
           in Some (row, d(sl \<mapsto> row)))
      | _ \<Rightarrow> None)"

record BlogData =
  d_title :: "json option"
  d_subTitle :: "json option"
  d_content :: "json option"
  d_bannerUrl :: "json option"
  d_video :: "json option"
  d_tags :: "Tags list option"
  d_topics :: "Topics list option"

definition update_string :: "json option \<Rightarrow> string \<Rightarrow> string option" where
  "update_string v old =
     (case v of None \<Rightarrow> Some old | Some (JStr s) \<Rightarrow> Some s | _ \<Rightarrow> None)"

definition update_nullable :: "json option \<Rightarrow> string option \<Rightarrow> string option option" where
  "update_nullable v old =
     (case v of
        None \<Rightarrow> Some old
      | Some JNull \<Rightarrow> Some None
      | Some (JStr s) \<Rightarrow> Some (Some s)
      | _ \<Rightarrow> None)"

definition prisma_update :: "db \<Rightarrow> string \<Rightarrow> Blog \<Rightarrow> BlogData \<Rightarrow> int \<Rightarrow> (Blog \<times> db) option" where
  "prisma_update d slg existing data now =
     (case (update_string (d_title data) (title existing),
            update_string (d_subTitle data) (subTitle existing),
            update_string (d_content data) (content existing),
            update_string (d_bannerUrl data) (bannerUrl existing),
            update_nullable (d_video data) (video existing)) of
        (Some t, Some s, Some c, Some b, Some v) \<Rightarrow>
          (let row = existing
                 \<lparr>title := t, subTitle := s, content := c, bannerUrl := b, video := v,
                  tags := (case d_tags data of None \<Rightarrow> tags existing | Some x \<Rightarrow> x),
                  topics := (case d_topics data of None \<Rightarrow> topics existing | Some x \<Rightarrow> x),
                  updatedAt := now\<rparr>
           in Some (row, d(slg \<mapsto> row)))
      | _ \<Rightarrow> None)"

subsection \<open>\<open>POST\<close> and \<open>PATCH\<close>\<close>

text \<open>
  The body of a request is \<open>None\<close> when its text is no JSON: \<open>request.json()\<close> throws
  then. Every exception in a handler is caught and answered with status 500.
\<close>

definition internal_error :: response where
  "internal_error = Json_error 500 ''Internal server error''"

definition POST ::
    "Tags list \<Rightarrow> Topics list \<Rightarrow> db \<Rightarrow> json option \<Rightarrow> string \<Rightarrow> int \<Rightarrow> response \<times> db" where
  "POST validTags validTopics d request newId now =
     (case request of
        None \<Rightarrow> (internal_error, d)
      | Some JNull \<Rightarrow> (internal_error, d)
      | Some body \<Rightarrow>
          (if \<not> truthy_json (property body ''title'') \<or> \<not> truthy_json (property body ''subTitle'')
              \<or> \<not> truthy_json (property body ''content'')
              \<or> \<not> truthy_json (property body ''bannerUrl'')
              \<or> \<not> truthy_json (property body ''slug'')
           then (Json_error 400
                   ''Missing required fields: title, subTitle, content, bannerUrl, slug'', d)
           else
             (case findUnique d (property body ''slug'') of
                None \<Rightarrow> (internal_error, d)
              | Some (Some existingBlog) \<Rightarrow>
                  (Json_error 409 ''Blog with this slug already exists'', d)
              | Some None \<Rightarrow>
                  (case validateTagsAndTopics validTags validTopics
                          (property body ''tags'') (property body ''topics'') of
                     Inl e \<Rightarrow> (internal_error, d)
                   | Inr (parsedTags, parsedTopics) \<Rightarrow>
                       (case prisma_create d newId now (property body ''title'')
                               (property body ''subTitle'') (property body ''content'')
                               (property body ''bannerUrl'') (property body ''slug'')
                               (property body ''video'') parsedTags parsedTopics of
                          None \<Rightarrow> (internal_error, d)
                        | Some (result, d') \<Rightarrow> (Json_blog 201 result, d'))))))"

text \<open>
  \<open>!title && !subTitle && !content && !bannerUrl && !video && !tags && !topics\<close>
\<close>

definition nothing_supplied :: "json \<Rightarrow> bool" where
  "nothing_supplied body =
     (\<not> truthy_json (property body ''title'') \<and> \<not> truthy_json (property body ''subTitle'')
      \<and> \<not> truthy_json (property body ''content'') \<and> \<not> truthy_json (property body ''bannerUrl'')
      \<and> \<not> truthy_json (property body ''video'') \<and> \<not> truthy_json (property body ''tags'')
      \<and> \<not> truthy_json (property body ''topics''))"

text \<open>\<open>if (title) blogData.title = title\<close>\<close>

definition if_truthy :: "json option \<Rightarrow> json option" where
  "if_truthy x = (if truthy_json x then x else None)"

text \<open>\<open>if (parsedTags.length > 0) blogData.tags = parsedTags\<close>\<close>

definition if_nonempty :: "string list \<Rightarrow> string list option" where
  "if_nonempty xs = (if length xs > 0 then Some xs else None)"

text \<open>
  The slug is a parameter of the URL. \<open>if (video !== undefined) blogData.video = video\<close>
  takes the video over whenever the body has the member.
\<close>

definition PATCH ::
    "Tags list \<Rightarrow> Topics list \<Rightarrow> db \<Rightarrow> string option \<Rightarrow> json option \<Rightarrow> int \<Rightarrow> response \<times> db" where
  "PATCH validTags validTopics d slugParam request now =
     (if \<not> truthy slugParam then (Json_error 400 ''Slug is required for editing'', d)
      else
        (case request of
           None \<Rightarrow> (internal_error, d)
         | Some JNull \<Rightarrow> (internal_error, d)
         | Some body \<Rightarrow>
             (if nothing_supplied body
              then (Json_error 400 ''At least one field must be provided for update'', d)
              else
                (case d (or_empty slugParam) of
                   None \<Rightarrow> (Json_error 404 ''Blog not found'', d)
                 | Some existingBlog \<Rightarrow>
                     (case validateTagsAndTopics validTags validTopics
                             (property body ''tags'') (property body ''topics'') of
                        Inl e \<Rightarrow> (internal_error, d)
                      | Inr (parsedTags, parsedTopics) \<Rightarrow>
                          (let blogData =
                                 \<lparr>d_title = if_truthy (property body ''title''),
                                  d_subTitle = if_truthy (property body ''subTitle''),
                                  d_content = if_truthy (property body ''content''),
                                  d_bannerUrl = if_truthy (property body ''bannerUrl''),
                                  d_video = property body ''video'',
                                  d_tags = if_nonempty parsedTags,
                                  d_topics = if_nonempty parsedTopics\<rparr>
                           in case prisma_update d (or_empty slugParam) existingBlog blogData now of
                                None \<Rightarrow> (internal_error, d)
                              | Some (result, d') \<Rightarrow> (Json_blog 200 result, d')))))))"

subsection \<open>Reading a request and its answer\<close>

text \<open>
  The strings that a member holds when it is an array, in order, and the conditions under
  which no value of a request is of a type that the route or the table cannot take: a text
  member is a string unless it is falsy, the video is a string, \<open>null\<close> or absent, and an
  array of tags holds strings only.
\<close>

fun strings_in :: "json list \<Rightarrow> string list" where
  "strings_in [] = []"
| "strings_in (JStr s # xs) = s # strings_in xs"
| "strings_in (x # xs) = strings_in xs"

definition submitted :: "json option \<Rightarrow> string list" where
  "submitted v = (case v of Some (JArr xs) \<Rightarrow> strings_in xs | _ \<Rightarrow> [])"

fun is_string :: "json \<Rightarrow> bool" where
  "is_string (JStr s) = True"
| "is_string v = False"

definition text_or_falsy :: "json option \<Rightarrow> bool" where
  "text_or_falsy v = (case v of Some (JStr s) \<Rightarrow> True | _ \<Rightarrow> \<not> truthy_json v)"

definition text_or_null :: "json option \<Rightarrow> bool" where
  "text_or_null v =
     (case v of None \<Rightarrow> True | Some JNull \<Rightarrow> True | Some (JStr s) \<Rightarrow> True | _ \<Rightarrow> False)"

definition strings_only :: "json option \<Rightarrow> bool" where
  "strings_only v = (case v of Some (JArr xs) \<Rightarrow> list_all is_string xs | _ \<Rightarrow> True)"

definition well_typed :: "json \<Rightarrow> bool" where
  "well_typed body =
     (text_or_falsy (property body ''title'') \<and> text_or_falsy (property body ''subTitle'')
      \<and> text_or_falsy (property body ''content'') \<and> text_or_falsy (property body ''bannerUrl'')
      \<and> text_or_null (property body ''video'')
      \<and> strings_only (property body ''tags'') \<and> strings_only (property body ''topics''))"

text \<open>
  A required member of a create is valid when it is a non-empty string; \<open>slug_of\<close> is the
  slug that a body holds.
\<close>

definition required_text :: "json option \<Rightarrow> bool" where
  "required_text v = (case v of Some (JStr s) \<Rightarrow> s \<noteq> [] | _ \<Rightarrow> False)"

definition slug_of :: "json \<Rightarrow> string" where
  "slug_of body = (case property body ''slug'' of Some (JStr s) \<Rightarrow> s | _ \<Rightarrow> [])"

definition valid_create :: "json \<Rightarrow> bool" where
  "valid_create body =
     (required_text (property body ''title'') \<and> required_text (property body ''subTitle'')
      \<and> required_text (property body ''content'') \<and> required_text (property body ''bannerUrl'')
      \<and> required_text (property body ''slug'') \<and> text_or_null (property body ''video'')
      \<and> strings_only (property body ''tags'') \<and> strings_only (property body ''topics''))"

text \<open>
  The value that a text column and the video column have after an update that has been
  carried out, for a member of the body and the stored value.
\<close>

definition new_text :: "json option \<Rightarrow> string \<Rightarrow> string" where
  "new_text v old = (case v of Some (JStr s) \<Rightarrow> if s = [] then old else s | _ \<Rightarrow> old)"

definition new_video :: "json option \<Rightarrow> string option \<Rightarrow> string option" where
  "new_video v old = (case v of None \<Rightarrow> old | Some (JStr s) \<Rightarrow> Some s | _ \<Rightarrow> None)"

section \<open>Paging in the search and topics API routes\<close>

text \<open>
  \<open>parseInt(val, 10)\<close>: leading white space is skipped, a sign is read, then the longest
  run of decimal digits; with no digit the result is \<open>NaN\<close>, here \<open>None\<close>. The value is
  the exact integer, which is the number the code has as long as its magnitude is at most
  \<open>2^53\<close>; beyond that the code has the nearest double.
\<close>

definition is_digit :: "char \<Rightarrow> bool" where
  "is_digit c = ((48::nat) \<le> of_char c \<and> of_char c \<le> (57::nat))"

fun digits_value :: "nat \<Rightarrow> string \<Rightarrow> nat" where
  "digits_value acc [] = acc"
| "digits_value acc (c # cs) = digits_value (10 * acc + (of_char c - 48)) cs"

definition parseInt :: "string \<Rightarrow> int option" where
  "parseInt s =
     (let s1 = strip_start white_space s;
          neg = (case s1 of [] \<Rightarrow> False | c # _ \<Rightarrow> c = CHR ''-'');
          s2 = (case s1 of [] \<Rightarrow> [] | c # r \<Rightarrow> if c = CHR ''-'' \<or> c = CHR ''+'' then r else s1);
          ds = takeWhile is_digit s2
      in if ds = [] then None
         else Some (if neg then - int (digits_value 0 ds) else int (digits_value 0 ds)))"

text \<open>\<open>z.string().default(d)\<close>: the default stands in for an absent parameter only.\<close>

definition z_default :: "string option \<Rightarrow> string \<Rightarrow> string" where
  "z_default v d = (case v of None \<Rightarrow> d | Some s \<Rightarrow> s)"

text \<open>\<open>Math.max\<close> and \<open>Math.min\<close> give \<open>NaN\<close> when an argument is \<open>NaN\<close>.\<close>

definition searchQuerySchema_page :: "string option \<Rightarrow> int option" where
  "searchQuerySchema_page v = map_option (\<lambda>n. max 1 n) (parseInt (z_default v ''1''))"

definition searchQuerySchema_limit :: "string option \<Rightarrow> int option" where
  "searchQuerySchema_limit v =
     map_option (\<lambda>n. min 100 (max 1 n)) (parseInt (z_default v ''10''))"

definition getQuerySchema_limit :: "string option \<Rightarrow> int option" where
  "getQuerySchema_limit v =
     map_option (\<lambda>n. min 100 (max 1 n)) (parseInt (z_default v ''10''))"

definition getQuerySchema_page :: "string option \<Rightarrow> int option" where
  "getQuerySchema_page v = map_option (\<lambda>n. max 1 n) (parseInt (z_default v ''1''))"

text \<open>\<open>(page - 1) * limit\<close>, which is \<open>NaN\<close> when a factor is.\<close>

definition offset_of :: "int option \<Rightarrow> int option \<Rightarrow> int option" where
  "offset_of page limit =
     (case page of None \<Rightarrow> None
      | Some p \<Rightarrow> (case limit of None \<Rightarrow> None | Some l \<Rightarrow> Some ((p - 1) * l)))"

text \<open>
  Modelled from the spec: \<open>findMany\<close> of the Prisma client, which is not part of the
  sources, on the rows that match the filter, already in the requested order: \<open>skip\<close> rows
  are passed over and at most \<open>take\<close> rows are returned.
\<close>

definition findMany :: "Blog list \<Rightarrow> int \<Rightarrow> int \<Rightarrow> Blog list" where
  "findMany rows skip tk = take (nat tk) (drop (nat skip) rows)"

text \<open>
  The records that a \<open>GET\<close> of the search route reads for given query parameters. With a
  \<open>NaN\<close> for \<open>skip\<close> or \<open>take\<close> there is no query with numbers to run; what the client
  does with it is outside the sources, and the model has no page for it.
\<close>

definition search_GET_blogs :: "Blog list \<Rightarrow> string option \<Rightarrow> string option \<Rightarrow> Blog list option" where
  "search_GET_blogs rows pageParam limitParam =
     (let page = searchQuerySchema_page pageParam;
          limit = searchQuerySchema_limit limitParam;
          offset = offset_of page limit
      in case offset of None \<Rightarrow> None
         | Some skip \<Rightarrow> (case limit of None \<Rightarrow> None | Some tk \<Rightarrow> Some (findMany rows skip tk)))"

text \<open>The same for the topics route, through \<open>fetchBlogsByTopics\<close>.\<close>

definition topics_GET_blogs :: "Blog list \<Rightarrow> string option \<Rightarrow> string option \<Rightarrow> Blog list option" where
  "topics_GET_blogs rows pageParam limitParam =
     (let limit = getQuerySchema_limit limitParam;
          page = getQuerySchema_page pageParam;
          skip = offset_of page limit
      in case skip of None \<Rightarrow> None
         | Some sk \<Rightarrow> (case limit of None \<Rightarrow> None | Some tk \<Rightarrow> Some (findMany rows sk tk)))"

section \<open>Infinite scroll in the views (components \<open>Blogs\<close> and \<open>TagsComponent\<close>)\<close>

text \<open>
  A view is rendered from its local state and the store, and React runs an effect again,
  after the clean-up of its previous run, whenever one of its dependencies has changed. The
  model keeps the values the infinite-scroll effect depends on and the observer that is
  connected to the sentinel, with the values its callback has captured. An event handler
  runs to its end, the view is rendered again and its effects have run before the next
  event is delivered. What a handler dispatches is the output of the step; the reducers'
  answers come back as store changes.
\<close>

datatype Dispatched =
    Dispatch_fetchBlogs FetchBlogsParams
  | Dispatch_fetchFilteredBlogs FilterParams
  | Dispatch_tag_fetchBlogs TagFetchParams

subsection \<open>The Blogs view\<close>

record BlogsClosure =
  bc_page :: int
  bc_tag :: "string option"
  bc_topic :: "string option"

record BlogsView =
  bv_page :: int
  bv_totalPages :: int
  bv_fetchBlogs :: Status
  bv_fetchFilteredBlogs :: Status
  bv_tag :: "string option"
  bv_topic :: "string option"
  bv_observer :: "BlogsClosure option"

text \<open>
  The effect: the clean-up of the previous run disconnects its observer; the new run
  returns at once while a fetch is loading or when \<open>page >= pagination.totalPages\<close>, and
  otherwise connects a new observer to the sentinel, which is rendered under the same
  condition \<open>page < pagination.totalPages\<close>.
\<close>

definition blogs_effect :: "BlogsView \<Rightarrow> BlogsView" where
  "blogs_effect v =
     (if bv_fetchBlogs v = Loading \<or> bv_fetchFilteredBlogs v = Loading
         \<or> bv_page v \<ge> bv_totalPages v
      then v\<lparr>bv_observer := None\<rparr>
      else v\<lparr>bv_observer := Some \<lparr>bc_page = bv_page v, bc_tag = bv_tag v, bc_topic = bv_topic v\<rparr>\<rparr>)"

text \<open>
  The observer's callback: the new local page, if it sets one, and what it dispatches. It
  also pushes the new page number to the URL, which none of the modelled values depends on.
\<close>

definition blogs_callback :: "BlogsClosure \<Rightarrow> bool \<Rightarrow> int option \<times> Dispatched list" where
  "blogs_callback c isIntersecting =
     (if isIntersecting then
        (let newPage = bc_page c + 1 in
         (Some newPage,
          [if truthy (bc_tag c) \<or> truthy (bc_topic c)
           then Dispatch_fetchFilteredBlogs
                  \<lparr>f_tag = bc_tag c, f_topic = bc_topic c, f_page = Some newPage, f_limit = Some 10\<rparr>
           else Dispatch_fetchBlogs
                  \<lparr>arg_page = Some newPage, arg_limit = Some 10, arg_tag = None, arg_topic = None,
                   arg_query = None\<rparr>]))
      else (None, []))"

datatype BlogsEvent =
    B_Sentinel bool
  | B_Store Status Status int
  | B_Params "string option" "string option"
  | B_Retry

text \<open>
  The events: the sentinel's intersection changes (delivered to the connected observer only);
  the store changes a status or the total number of pages; the URL parameters change; the
  retry handler sets the page to 1 and dispatches the first page again.
\<close>

fun blogs_step :: "BlogsView \<Rightarrow> BlogsEvent \<Rightarrow> BlogsView \<times> Dispatched list" where
  "blogs_step v (B_Sentinel isIntersecting) =
     (case bv_observer v of
        None \<Rightarrow> (v, [])
      | Some c \<Rightarrow>
          (case blogs_callback c isIntersecting of
             (None, ds) \<Rightarrow> (v, ds)
           | (Some p, ds) \<Rightarrow> (blogs_effect (v\<lparr>bv_page := p\<rparr>), ds)))"
| "blogs_step v (B_Store s1 s2 tp) =
     (blogs_effect (v\<lparr>bv_fetchBlogs := s1, bv_fetchFilteredBlogs := s2, bv_totalPages := tp\<rparr>), [])"
| "blogs_step v (B_Params tg tp) = (blogs_effect (v\<lparr>bv_tag := tg, bv_topic := tp\<rparr>), [])"
| "blogs_step v B_Retry =
     (blogs_effect (v\<lparr>bv_page := 1\<rparr>),
      [if truthy (bv_tag v) \<or> truthy (bv_topic v)
       then Dispatch_fetchFilteredBlogs
              \<lparr>f_tag = bv_tag v, f_topic = bv_topic v, f_page = Some 1, f_limit = Some 10\<rparr>
       else Dispatch_fetchBlogs
              \<lparr>arg_page = Some 1, arg_limit = Some 10, arg_tag = None, arg_topic = None,
               arg_query = None\<rparr>])"

inductive blogs_reachable :: "BlogsView \<Rightarrow> bool" where
  mount: "blogs_reachable (blogs_effect (v\<lparr>bv_observer := None\<rparr>))"
| step: "blogs_reachable v \<Longrightarrow> blogs_reachable (fst (blogs_step v e))"

subsection \<open>The debounce utility (src/utils/debounce.ts)\<close>

text \<open>
  Each call of \<open>debounce\<close> makes one timer slot. The pending calls of all slots are kept in
  a list, each with the number of its slot, the wrapped function (here the values it has
  captured) and the arguments it will be called with. \<open>debounced\<close> clears the slot's
  pending call and sets a new one; \<open>cancel\<close> clears it. A pending call runs when its
  delay has passed: that is an event of its own.
\<close>

definition debounced :: "nat \<Rightarrow> 'f \<Rightarrow> 'a \<Rightarrow> (nat \<times> 'f \<times> 'a) list \<Rightarrow> (nat \<times> 'f \<times> 'a) list" where
  "debounced slot func args timers = filter (\<lambda>t. fst t \<noteq> slot) timers @ [(slot, func, args)]"

definition cancel :: "nat \<Rightarrow> (nat \<times> 'f \<times> 'a) list \<Rightarrow> (nat \<times> 'f \<times> 'a) list" where
  "cancel slot timers = filter (\<lambda>t. fst t \<noteq> slot) timers"

subsection \<open>The Tags view\<close>

record TagsClosure =
  tc_status :: Status
  tc_currentPage :: int
  tc_totalPages :: int
  tc_tagsQuery :: string

record TagsView =
  tv_status :: Status
  tv_currentPage :: int
  tv_totalPages :: int
  tv_tagsQuery :: string
  tv_slot :: nat
  tv_observer :: "(nat \<times> TagsClosure) option"
  tv_timers :: "(nat \<times> TagsClosure \<times> bool) list"

text \<open>The function that \<open>handleObserver\<close> wraps, on the values it has captured.\<close>

definition handleObserver :: "TagsClosure \<Rightarrow> bool \<Rightarrow> Dispatched list" where
  "handleObserver c isIntersecting =
     (if isIntersecting \<and> tc_status c \<noteq> Loading \<and> tc_currentPage c < tc_totalPages c
      then [Dispatch_tag_fetchBlogs
              \<lparr>targ_tag = (if tc_tagsQuery c = [] then None else Some (tc_tagsQuery c)),
               targ_page = Some (tc_currentPage c + 1), targ_limit = Some 12\<rparr>]
      else [])"

text \<open>
  A change of status, pagination or query makes a new \<open>handleObserver\<close>, with a timer slot
  of its own, and runs the effect again: the previous observer is disconnected, and a new
  one is connected when no fetch is loading and \<open>currentPage < totalPages\<close>.
\<close>

definition tags_effect :: "TagsView \<Rightarrow> TagsView" where
  "tags_effect v =
     (let slot = Suc (tv_slot v);
          c = \<lparr>tc_status = tv_status v, tc_currentPage = tv_currentPage v,
               tc_totalPages = tv_totalPages v, tc_tagsQuery = tv_tagsQuery v\<rparr>
      in v\<lparr>tv_slot := slot,
           tv_observer := (if tv_status v \<noteq> Loading \<and> tv_currentPage v < tv_totalPages v
                           then Some (slot, c) else None)\<rparr>)"

datatype TagsEvent =
    T_Sentinel bool
  | T_Timer nat
  | T_Store Status int int
  | T_Query string
  | T_Clear

text \<open>
  The events: the sentinel's intersection changes, which calls the debounced handler of the
  connected observer; the delay of a pending call has passed; the store changes the status
  or the pagination; the query changes; the input is cleared. Clearing the input
  (\<open>handleClearInput\<close>, and \<open>handleInputChange\<close> with an empty value) empties the query
  and dispatches \<open>clearTags\<close>, which puts the pagination back to the initial one, and
  then the first page, whose pending action sets the status to loading.
\<close>

fun tags_step :: "TagsView \<Rightarrow> TagsEvent \<Rightarrow> TagsView \<times> Dispatched list" where
  "tags_step v (T_Sentinel isIntersecting) =
     (case tv_observer v of
        None \<Rightarrow> (v, [])
      | Some (slot, c) \<Rightarrow> (v\<lparr>tv_timers := debounced slot c isIntersecting (tv_timers v)\<rparr>, []))"
| "tags_step v (T_Timer i) =
     (if i < length (tv_timers v)
      then (case tv_timers v ! i of
              (slot, c, isIntersecting) \<Rightarrow>
                (v\<lparr>tv_timers := take i (tv_timers v) @ drop (Suc i) (tv_timers v)\<rparr>,
                 handleObserver c isIntersecting))
      else (v, []))"
| "tags_step v (T_Store s cp tp) =
     (tags_effect (v\<lparr>tv_status := s, tv_currentPage := cp, tv_totalPages := tp\<rparr>), [])"
| "tags_step v (T_Query q) = (tags_effect (v\<lparr>tv_tagsQuery := q\<rparr>), [])"
| "tags_step v T_Clear =
     (tags_effect (v\<lparr>tv_tagsQuery := [],
                     tv_currentPage := t_currentPage (t_pagination tag_initialState),
                     tv_totalPages := t_totalPages (t_pagination tag_initialState),
                     tv_status := Loading\<rparr>),
      [Dispatch_tag_fetchBlogs \<lparr>targ_tag = None, targ_page = Some 1, targ_limit = Some 12\<rparr>])"

inductive tags_reachable :: "TagsView \<Rightarrow> bool" where
  mount: "tags_reachable (tags_effect (v\<lparr>tv_observer := None, tv_timers := []\<rparr>))"
| step: "tags_reachable v \<Longrightarrow> tags_reachable (fst (tags_step v e))"

section \<open>Sample data\<close>

text \<open>Concrete records, arguments and payloads on which the properties below are exercised.\<close>

definition sample_blog :: "string \<Rightarrow> Tags list \<Rightarrow> Topics list \<Rightarrow> Blog" where
  "sample_blog i tgs tps =
     \<lparr>blogId = i, title = ''Post '' @ i, subTitle = ''About '' @ i, content = ''Body'',
      bannerUrl = ''https://img/'' @ i, slug = ''post-'' @ i, video = None,
      tags = tgs, topics = tps, createdAt = 0, updatedAt = 0\<rparr>"

definition page_args :: "int \<Rightarrow> FetchBlogsParams" where
  "page_args p = \<lparr>arg_page = Some p, arg_limit = Some 10, arg_tag = None, arg_topic = None,
                  arg_query = None\<rparr>"

definition tag_page_args :: "int \<Rightarrow> TagFetchParams" where
  "tag_page_args p = \<lparr>targ_tag = None, targ_page = Some p, targ_limit = Some 12\<rparr>"

definition sample_page :: "string list \<Rightarrow> int \<Rightarrow> BlogsPayload" where
  "sample_page is p =
     \<lparr>blogs = map (\<lambda>i. sample_blog i [''AI''] [''SCIENCE'']) is,
      pl_pagination = \<lparr>currentPage = p, totalPages = 2, totalBlogs = 3\<rparr>\<rparr>"

definition tag_sample_page :: "string list \<Rightarrow> int \<Rightarrow> TagBlogsPayload" where
  "tag_sample_page is p =
     \<lparr>t_blogs = map (\<lambda>i. sample_blog i [''AI''] [''SCIENCE'']) is,
      tpl_pagination = \<lparr>t_currentPage = p, t_totalPages = 2, t_totalBlogs = 3, t_limit = 12\<rparr>\<rparr>"

definition sample_create :: CreateBlogParams where
  "sample_create =
     \<lparr>c_title = ''New'', c_subTitle = ''Sub'', c_content = ''Body'',
      c_bannerUrl = ''https://img/new'', c_slug = ''new'', c_video = None,
      c_tags = [''AI''], c_topics = [''SCIENCE'']\<rparr>"

text \<open>The state after the first page, with the posts \<open>a\<close> and \<open>b\<close>, has arrived.\<close>

definition loaded_state :: BlogState where
  "loaded_state = fetchBlogs_fulfilled initialState (sample_page [''a'', ''b''] 1) (page_args 1) 0"

text \<open>A state whose cache also holds an entry under a filter signature.\<close>

definition cached_state :: BlogState where
  "cached_state =
     loaded_state\<lparr>cache := (cache loaded_state)
        (filter_cacheKey (Some ''ai'') None 1 10 \<mapsto> \<lparr>cached_ids = [''a''], timestamp = 0\<rparr>)\<rparr>"

definition filter_args :: FilterParams where
  "filter_args = \<lparr>f_tag = Some ''ai'', f_topic = None, f_page = Some 1, f_limit = Some 10\<rparr>"

text \<open>
  Two creates in flight, with the temporary ids of the clock readings 5 and 7.
\<close>

definition two_pending :: BlogState where
  "two_pending = createBlog_pending (createBlog_pending initialState sample_create 5 5 5) sample_create 7 7 7"

text \<open>
  The vocabularies of the examples in the specification, a stored post with a video, and
  request bodies.
\<close>

definition sample_tags :: "Tags list" where
  "sample_tags = [''AI'']"

definition sample_topics :: "Topics list" where
  "sample_topics = [''SCIENCE'']"

definition stored_blog :: Blog where
  "stored_blog = (sample_blog ''a'' [''AI''] [''SCIENCE''])\<lparr>video := Some ''v.mp4''\<rparr>"

definition sample_db :: db where
  "sample_db = [''post-a'' \<mapsto> stored_blog]"

definition title_patch :: "string \<Rightarrow> json" where
  "title_patch t = JObj [(''title'', JStr t)]"

definition sample_patch :: json where
  "sample_patch =
     JObj [(''subTitle'', JStr ''Second''), (''title'', JStr []), (''video'', JNull),
           (''tags'', JArr [JStr ''BOGUS''])]"

definition sample_post :: json where
  "sample_post =
     JObj [(''title'', JStr ''New''), (''subTitle'', JStr ''Sub''), (''content'', JStr ''Body''),
           (''bannerUrl'', JStr ''https://img/new''), (''slug'', JStr ''new''),
           (''tags'', JArr [JStr '' AI'', JStr ''BOGUS'']),
           (''topics'', JArr [JStr ''SCIENCE'', JStr ''science''])]"

definition mixed_post :: json where
  "mixed_post =
     JObj [(''title'', JStr ''New''), (''subTitle'', JStr ''Sub''), (''content'', JStr ''Body''),
           (''bannerUrl'', JStr ''https://img/new''), (''slug'', JStr ''new''),
           (''tags'', JArr [JStr ''AI'', JNum 5])]"

definition retag_patch :: json where
  "retag_patch = JObj [(''tags'', JArr [JStr ''BOGUS'', JStr (CHR 0xC2 # CHR 0xA0 # ''AI ''), JStr ''AI''])]"

definition bogus_patch :: json where
  "bogus_patch = JObj [(''title'', JStr ''T''), (''tags'', JArr [JStr ''BOGUS''])]"

definition mixed_patch :: json where
  "mixed_patch = JObj [(''tags'', JArr [JStr ''AI'', JNum 5])]"

definition created_blog :: Blog where
  "created_blog =
     \<lparr>blogId = ''id1'', title = ''New'', subTitle = ''Sub'', content = ''Body'',
      bannerUrl = ''https://img/new'', slug = ''new'', video = None,
      tags = [''AI''], topics = [''SCIENCE''], createdAt = 3, updatedAt = 3\<rparr>"

text \<open>
  The Blogs view and the Tags view on the last of three pages, reached by scrolling from
  the first one.
\<close>

definition blogs_first_page :: BlogsView where
  "blogs_first_page =
     \<lparr>bv_page = 1, bv_totalPages = 3, bv_fetchBlogs = Succeeded, bv_fetchFilteredBlogs = Idle,
      bv_tag = None, bv_topic = None, bv_observer = None\<rparr>"

definition blogs_last_page :: BlogsView where
  "blogs_last_page =
     fst (blogs_step (fst (blogs_step (blogs_effect blogs_first_page) (B_Sentinel True)))
            (B_Sentinel True))"

definition tags_first_page :: TagsView where
  "tags_first_page =
     \<lparr>tv_status = Succeeded, tv_currentPage = 1, tv_totalPages = 3, tv_tagsQuery = [],
      tv_slot = 0, tv_observer = None, tv_timers = []\<rparr>"

text \<open>
  The Tags view on the first of three pages when the sentinel has come into view and the
  input has then been cleared, before the delay of the debounced call has passed.
\<close>

definition tags_cleared :: TagsView where
  "tags_cleared =
     fst (tags_step (fst (tags_step (tags_effect tags_first_page) (T_Sentinel True))) T_Clear)"

definition tags_last_page :: TagsView where
  "tags_last_page =
     fst (tags_step (fst (tags_step (fst (tags_step (tags_effect tags_first_page) (T_Sentinel True)))
                            (T_Timer 0)))
            (T_Store Succeeded 3 3))"

section \<open>Properties\<close>

subsection \<open>Freshness of a query-cache entry\<close>

lemma CACHE_DURATION_ms: "CACHE_DURATION = 300000"
  by (simp add: CACHE_DURATION_def)

text \<open>
  C4. With the five-minute time to live, an entry stored at timestamp \<open>t\<close> under the
  signature that \<open>fetchBlogs\<close> looks up is fresh exactly at the lookup times \<open>now\<close> with
  \<open>now - t < 300000\<close>: the payload creator answers from the cache then (for instance at
  \<open>t + 299000\<close>) and goes to the network at every later time (for instance at
  \<open>t + 301000\<close>).
\<close>

theorem cache_freshness_boundary:
  "let key = blogs_cacheKey (default_num (arg_page a) 1) (default_num (arg_limit a) 10)
               (arg_tag a) (arg_topic a) (arg_query a);
       st' = st\<lparr>cache := (cache st)(key \<mapsto> \<lparr>cached_ids = cids, timestamp = t\<rparr>)\<rparr>
   in CACHE_DURATION = 5 * 60 * 1000
      \<and> cache_fresh (cache st' key) now = (now - t < 300000)
      \<and> (\<exists>p. fetchBlogs st' a now = CacheHit p) = (now - t < 300000)
      \<and> (\<exists>r. fetchBlogs st' a now = NetworkRequest r) = (300000 \<le> now - t)
      \<and> cache_fresh (cache st' key) (t + 299000)
      \<and> \<not> cache_fresh (cache st' key) (t + 301000)"
  by (simp add: cache_fresh_def fetchBlogs_def Let_def CACHE_DURATION_def not_less)

theorem cache_freshness_boundary_witness:
  "fetchBlogs loaded_state (page_args 1) 299000 =
     CacheHit \<lparr>blogs = [], pl_pagination = \<lparr>currentPage = 1, totalPages = 2, totalBlogs = 3\<rparr>\<rparr>
   \<and> fetchBlogs loaded_state (page_args 1) 301000 =
     NetworkRequest [(''page'', ''1''), (''limit'', ''10'')]
   \<and> fetchBlogs loaded_state (page_args 1) 300000 =
     NetworkRequest [(''page'', ''1''), (''limit'', ''10'')]"
proof -
  have k: "blogs_cacheKey 1 10 None None None = ''blogs:1:10:::''" by code_simp
  have n: "toString 1 = ''1''" "toString 10 = ''10''" by code_simp+
  have l: "loaded_state =
      loaded_state\<lparr>cache := (cache loaded_state)(''blogs:1:10:::'' \<mapsto>
        \<lparr>cached_ids = [''a'', ''b''], timestamp = 0\<rparr>)\<rparr>"
    by (simp add: loaded_state_def fetchBlogs_fulfilled_def Let_def page_args_def or_num_def k
        sample_page_def normalize_result_def sample_blog_def)
  have p: "pagination loaded_state = \<lparr>currentPage = 1, totalPages = 2, totalBlogs = 3\<rparr>"
    by (simp add: loaded_state_def fetchBlogs_fulfilled_def Let_def sample_page_def)
  have c: "cache loaded_state ''blogs:1:10:::'' = Some \<lparr>cached_ids = [''a'', ''b''], timestamp = 0\<rparr>"
    by (subst l) simp
  have f: "cache_fresh (cache loaded_state ''blogs:1:10:::'') now = (now < 300000)" for now
  proof -
    from cache_freshness_boundary [where a = "page_args 1" and st = loaded_state
        and cids = "[''a'', ''b'']" and t = 0 and now = now]
    have "cache_fresh (Some \<lparr>cached_ids = [''a'', ''b''], timestamp = 0\<rparr>) now = (now < 300000)"
      by (simp add: Let_def)
    then show ?thesis by (simp only: c)
  qed
  show ?thesis
    by (simp add: fetchBlogs_def Let_def page_args_def default_num_def k f p set_if_truthy_def n)
qed

subsection \<open>Spreading a set: first occurrences, in order\<close>

lemma set_insert_all_set: "set (set_insert_all acc xs) = set acc \<union> set xs"
  by (induction xs arbitrary: acc) auto

lemma set_insert_all_distinct: "distinct acc \<Longrightarrow> distinct (set_insert_all acc xs)"
  by (induction xs arbitrary: acc) auto

lemma set_insert_all_append:
  "set_insert_all acc (xs @ ys) = set_insert_all (set_insert_all acc xs) ys"
  by (induction xs arbitrary: acc) auto

lemma set_insert_all_absorb: "set xs \<subseteq> set acc \<Longrightarrow> set_insert_all acc xs = acc"
  by (induction xs) auto

lemma set_insert_all_fresh: "distinct (acc @ xs) \<Longrightarrow> set_insert_all acc xs = acc @ xs"
  by (induction xs arbitrary: acc) auto

lemma set_insert_all_split:
  "set_insert_all (a @ b) xs = a @ set_insert_all b [x \<leftarrow> xs. x \<notin> set a]"
proof (induction xs arbitrary: b)
  case Nil
  then show ?case by simp
next
  case (Cons x xs)
  show ?case
  proof (cases "x \<in> set a \<or> x \<in> set b")
    case True
    then show ?thesis using Cons.IH [of b] by auto
  next
    case False
    then show ?thesis using Cons.IH [of "b @ [x]"] by simp
  qed
qed

lemma spread_set_distinct: "distinct (spread_set xs)"
  by (simp add: spread_set_def set_insert_all_distinct)

lemma spread_set_set: "set (spread_set xs) = set xs"
  by (simp add: spread_set_def set_insert_all_set)

lemma spread_set_id: "distinct xs \<Longrightarrow> spread_set xs = xs"
  using set_insert_all_fresh [of "[]" xs] by (simp add: spread_set_def)

lemma spread_set_append: "spread_set (xs @ ys) = set_insert_all (spread_set xs) ys"
  by (simp add: spread_set_def set_insert_all_append)

lemma spread_set_absorb: "spread_set (spread_set xs @ ys) = spread_set (xs @ ys)"
  by (simp add: spread_set_append spread_set_id spread_set_distinct)

lemma spread_set_new_ids:
  "distinct xs \<Longrightarrow> spread_set (xs @ ys) = xs @ spread_set [y \<leftarrow> ys. y \<notin> set xs]"
  using set_insert_all_split [of xs "[]" ys]
  by (simp add: spread_set_append spread_set_id) (simp add: spread_set_def)

lemma spread_set_idem: "spread_set (spread_set (xs @ ys) @ ys) = spread_set (xs @ ys)"
proof -
  have "set ys \<subseteq> set (spread_set (xs @ ys))" by (simp add: spread_set_set)
  then have "set_insert_all (spread_set (xs @ ys)) ys = spread_set (xs @ ys)"
    by (rule set_insert_all_absorb)
  then show ?thesis
    by (simp add: spread_set_append [of "spread_set (xs @ ys)"] spread_set_id spread_set_distinct)
qed

lemma map_add_twice: "(m ++ n) ++ n = m ++ n"
  by (rule ext) (simp add: map_add_def split: option.splits)

subsection \<open>The ordered id list under page fetches\<close>

lemma ids_fetchBlogs_fulfilled:
  "ids (fetchBlogs_fulfilled st payload a now) =
     (if blogs payload = [] then ids st
      else spread_set (ids st @ normalize_result (blogs payload)))"
  by (simp add: fetchBlogs_fulfilled_def Let_def)

lemma ids_fetchBlogs_fulfilled_distinct:
  assumes "distinct (ids st)"
  shows "ids (fetchBlogs_fulfilled st payload a now) =
           spread_set (ids st @ normalize_result (blogs payload))"
  using assms by (simp add: ids_fetchBlogs_fulfilled normalize_result_def spread_set_id)

lemma ids_fetchBlogs_fulfilled_all:
  "distinct (ids st) \<Longrightarrow>
   ids (fetchBlogs_fulfilled_all st acts) =
     spread_set (ids st @ concat (map (\<lambda>(payload, a, now). normalize_result (blogs payload)) acts))"
proof (induction acts arbitrary: st)
  case Nil
  then show ?case by (simp add: fetchBlogs_fulfilled_all_def spread_set_id)
next
  case (Cons act acts)
  obtain payload a now where act: "act = (payload, a, now)" by (cases act) auto
  let ?st1 = "fetchBlogs_fulfilled st payload a now"
  have step: "ids ?st1 = spread_set (ids st @ normalize_result (blogs payload))"
    using Cons.prems by (rule ids_fetchBlogs_fulfilled_distinct)
  then have "distinct (ids ?st1)" by (simp add: spread_set_distinct)
  from Cons.IH [OF this] show ?case
    by (simp add: act fetchBlogs_fulfilled_all_def step spread_set_absorb)
qed

lemma blogIds_tag_fetchBlogs_fulfilled:
  "blogIds (tag_fetchBlogs_fulfilled st payload a now) =
     (if t_blogs payload = [] then blogIds st
      else spread_set (blogIds st @ normalize_result (t_blogs payload)))"
  by (simp add: tag_fetchBlogs_fulfilled_def Let_def)

lemma blogIds_tag_fetchBlogs_fulfilled_distinct:
  assumes "distinct (blogIds st)"
  shows "blogIds (tag_fetchBlogs_fulfilled st payload a now) =
           spread_set (blogIds st @ normalize_result (t_blogs payload))"
  using assms by (simp add: blogIds_tag_fetchBlogs_fulfilled normalize_result_def spread_set_id)

lemma blogIds_tag_fetchBlogs_fulfilled_all:
  "distinct (blogIds st) \<Longrightarrow>
   blogIds (tag_fetchBlogs_fulfilled_all st acts) =
     spread_set (blogIds st @ concat (map (\<lambda>(payload, a, now). normalize_result (t_blogs payload)) acts))"
proof (induction acts arbitrary: st)
  case Nil
  then show ?case by (simp add: tag_fetchBlogs_fulfilled_all_def spread_set_id)
next
  case (Cons act acts)
  obtain payload a now where act: "act = (payload, a, now)" by (cases act) auto
  let ?st1 = "tag_fetchBlogs_fulfilled st payload a now"
  have step: "blogIds ?st1 = spread_set (blogIds st @ normalize_result (t_blogs payload))"
    using Cons.prems by (rule blogIds_tag_fetchBlogs_fulfilled_distinct)
  then have "distinct (blogIds ?st1)" by (simp add: spread_set_distinct)
  from Cons.IH [OF this] show ?case
    by (simp add: act tag_fetchBlogs_fulfilled_all_def step spread_set_absorb)
qed

text \<open>
  C2. Under any run of page fetches that starts from an id list without repetitions (the
  initial, empty list in particular), the ordered id list of the blog slice and of the tag
  slice lists every id once, in the order in which the ids were first seen: it is the
  starting list followed by the payload ids in arrival order, each at its first occurrence.
  A single fetch keeps the list it finds as a prefix and appends the ids it had not seen.
\<close>

theorem ordered_ids_first_seen:
  assumes "distinct (ids st)" and "distinct (blogIds ts)"
  shows "distinct (ids (fetchBlogs_fulfilled_all st acts))
       \<and> ids (fetchBlogs_fulfilled_all st acts) =
           spread_set (ids st @ concat (map (\<lambda>(payload, a, now). map blogId (blogs payload)) acts))
       \<and> ids (fetchBlogs_fulfilled st payload a now) =
           ids st @ spread_set [i \<leftarrow> map blogId (blogs payload). i \<notin> set (ids st)]
       \<and> distinct (blogIds (tag_fetchBlogs_fulfilled_all ts tacts))
       \<and> blogIds (tag_fetchBlogs_fulfilled_all ts tacts) =
           spread_set (blogIds ts @ concat (map (\<lambda>(payload, a, now). map blogId (t_blogs payload)) tacts))
       \<and> blogIds (tag_fetchBlogs_fulfilled ts tpayload ta tnow) =
           blogIds ts @ spread_set [i \<leftarrow> map blogId (t_blogs tpayload). i \<notin> set (blogIds ts)]"
proof -
  have b: "ids (fetchBlogs_fulfilled_all st acts) =
           spread_set (ids st @ concat (map (\<lambda>(payload, a, now). map blogId (blogs payload)) acts))"
    using ids_fetchBlogs_fulfilled_all [OF assms(1), of acts] by (simp add: normalize_result_def)
  have t: "blogIds (tag_fetchBlogs_fulfilled_all ts tacts) =
           spread_set (blogIds ts @ concat (map (\<lambda>(payload, a, now). map blogId (t_blogs payload)) tacts))"
    using blogIds_tag_fetchBlogs_fulfilled_all [OF assms(2), of tacts]
    by (simp add: normalize_result_def)
  have b1: "ids (fetchBlogs_fulfilled st payload a now) =
           ids st @ spread_set [i \<leftarrow> map blogId (blogs payload). i \<notin> set (ids st)]"
    using ids_fetchBlogs_fulfilled_distinct [OF assms(1), of payload a now]
      spread_set_new_ids [OF assms(1)]
    by (simp add: normalize_result_def)
  have t1: "blogIds (tag_fetchBlogs_fulfilled ts tpayload ta tnow) =
           blogIds ts @ spread_set [i \<leftarrow> map blogId (t_blogs tpayload). i \<notin> set (blogIds ts)]"
    using blogIds_tag_fetchBlogs_fulfilled_distinct [OF assms(2), of tpayload ta tnow]
      spread_set_new_ids [OF assms(2)]
    by (simp add: normalize_result_def)
  have "distinct (ids (fetchBlogs_fulfilled_all st acts))"
    by (simp only: b spread_set_distinct)
  moreover have "distinct (blogIds (tag_fetchBlogs_fulfilled_all ts tacts))"
    by (simp only: t spread_set_distinct)
  ultimately show ?thesis using b t b1 t1 by blast
qed

theorem ordered_ids_first_seen_witness:
  "distinct (ids initialState) \<and> distinct (blogIds tag_initialState)
   \<and> ids (fetchBlogs_fulfilled_all initialState
        [(sample_page [''a'', ''b''] 1, page_args 1, 0), (sample_page [''b'', ''c''] 2, page_args 2, 5)])
       = [''a'', ''b'', ''c'']
   \<and> ids (fetchBlogs_fulfilled initialState (sample_page [''a'', ''a''] 1) (page_args 1) 0) = [''a'']
   \<and> blogIds (tag_fetchBlogs_fulfilled_all tag_initialState
        [(tag_sample_page [''a'', ''b''] 1, tag_page_args 1, 0),
         (tag_sample_page [''b'', ''c''] 2, tag_page_args 2, 5)])
       = [''a'', ''b'', ''c'']
   \<and> blogIds (tag_fetchBlogs_fulfilled tag_initialState (tag_sample_page [''a'', ''a''] 1)
        (tag_page_args 1) 0) = [''a'']"
  using ordered_ids_first_seen [of initialState tag_initialState
      "[(sample_page [''a'', ''b''] 1, page_args 1, 0), (sample_page [''b'', ''c''] 2, page_args 2, 5)]"
      "sample_page [''a'', ''a''] 1" "page_args 1" 0
      "[(tag_sample_page [''a'', ''b''] 1, tag_page_args 1, 0),
        (tag_sample_page [''b'', ''c''] 2, tag_page_args 2, 5)]"
      "tag_sample_page [''a'', ''a''] 1" "tag_page_args 1" 0]
  by (simp add: initialState_def tag_initialState_def sample_page_def tag_sample_page_def
      sample_blog_def spread_set_def)

text \<open>
  C3. Merging is idempotent: applying the fulfilled reducer of \<open>fetchBlogs\<close> a second time
  with the same payload leaves the entity table and the ordered id list as the first
  application left them, and no id of the payload is new to the list the second time.
\<close>

theorem fetchBlogs_fulfilled_idempotent:
  "entities (fetchBlogs_fulfilled (fetchBlogs_fulfilled st payload a now) payload a now') =
     entities (fetchBlogs_fulfilled st payload a now)
   \<and> ids (fetchBlogs_fulfilled (fetchBlogs_fulfilled st payload a now) payload a now') =
       ids (fetchBlogs_fulfilled st payload a now)
   \<and> [i \<leftarrow> map blogId (blogs payload). i \<notin> set (ids (fetchBlogs_fulfilled st payload a now))] = []"
proof -
  have e: "entities (fetchBlogs_fulfilled s payload a n) =
             (if blogs payload = [] then entities s
              else entities s ++ normalize_entities (blogs payload))" for s n
    by (simp add: fetchBlogs_fulfilled_def Let_def)
  have "set (map blogId (blogs payload)) \<subseteq> set (ids (fetchBlogs_fulfilled st payload a now))"
    by (simp add: ids_fetchBlogs_fulfilled spread_set_set normalize_result_def)
  then have "[i \<leftarrow> map blogId (blogs payload).
               i \<notin> set (ids (fetchBlogs_fulfilled st payload a now))] = []"
    by (auto simp: filter_empty_conv)
  then show ?thesis
    by (simp add: e ids_fetchBlogs_fulfilled map_add_twice spread_set_idem)
qed

theorem fetchBlogs_fulfilled_idempotent_witness:
  "entities (fetchBlogs_fulfilled (fetchBlogs_fulfilled initialState (sample_page [''a'', ''b''] 1) (page_args 1) 0)
      (sample_page [''a'', ''b''] 1) (page_args 1) 9) =
     entities (fetchBlogs_fulfilled initialState (sample_page [''a'', ''b''] 1) (page_args 1) 0)
   \<and> ids (fetchBlogs_fulfilled (fetchBlogs_fulfilled initialState (sample_page [''a'', ''b''] 1) (page_args 1) 0)
      (sample_page [''a'', ''b''] 1) (page_args 1) 9) = [''a'', ''b'']"
  using fetchBlogs_fulfilled_idempotent [of initialState "sample_page [''a'', ''b''] 1" "page_args 1" 0 9]
  by (simp add: ids_fetchBlogs_fulfilled initialState_def sample_page_def sample_blog_def
      spread_set_def normalize_result_def)

subsection \<open>Filter selection\<close>

lemma filter_ids_total:
  "set xs \<subseteq> dom es \<Longrightarrow>
   filter_ids P es xs = Inr [i \<leftarrow> xs. \<exists>b. es i = Some b \<and> P b]"
  by (induction xs) (auto split: option.splits)

lemma setSelectedTag_frame:
  "setSelectedTag st x = Inr st' \<Longrightarrow>
   selection st' = (x, selectedTopic st, searchQuery st) \<and> ids st' = ids st
   \<and> entities st' = entities st"
  by (auto simp: setSelectedTag_def selection_def split: sum.splits)

lemma setSelectedTopic_frame:
  "setSelectedTopic st y = Inr st' \<Longrightarrow>
   selection st' = (selectedTag st, y, searchQuery st) \<and> ids st' = ids st
   \<and> entities st' = entities st"
  by (auto simp: setSelectedTopic_def selection_def split: sum.splits)

lemma setSearchQuery_frame:
  "setSearchQuery st q = Inr st' \<Longrightarrow>
   selection st' = (selectedTag st, selectedTopic st, q) \<and> ids st' = ids st
   \<and> entities st' = entities st"
  by (auto simp: setSearchQuery_def selection_def Let_def split: sum.splits if_splits)

lemma loaded_state_simps:
  "ids loaded_state = [''a'', ''b'']"
  "entities loaded_state ''a'' = Some (sample_blog ''a'' [''AI''] [''SCIENCE''])"
  "entities loaded_state ''b'' = Some (sample_blog ''b'' [''AI''] [''SCIENCE''])"
  "selectedTag loaded_state = None" "selectedTopic loaded_state = None"
  "searchQuery loaded_state = None"
  by (simp_all add: loaded_state_def fetchBlogs_fulfilled_def Let_def initialState_def
      sample_page_def sample_blog_def spread_set_def normalize_result_def)

text \<open>
  C1, as the reducers have it. The three filter setters of the blog slice are independent:
  each one writes its own selection field and recomputes the visible ids, and leaves the
  other two selection fields as they were. On a state whose ordered ids all have entities,
  setting the tag \<open>t\<close> and then the topic \<open>p\<close> succeeds and ends with the topic \<open>p\<close>
  selected, the tag \<open>t\<close> still selected and the search query untouched; the visible ids
  are the ordered ids whose record carries the topic \<open>p\<close>.
\<close>

theorem filter_setters_independent:
  assumes "set (ids st) \<subseteq> dom (entities st)"
  shows "(\<exists>st'. dispatch_all st [SetSelectedTag (Some t), SetSelectedTopic (Some p)] = Inr st'
            \<and> selection st' = (Some t, Some p, searchQuery st)
            \<and> filteredIds st' = [i \<leftarrow> ids st. \<exists>b. entities st i = Some b \<and> p \<in> set (topics b)])
       \<and> (setSelectedTag st x = Inr s1 \<longrightarrow> selection s1 = (x, selectedTopic st, searchQuery st))
       \<and> (setSelectedTopic st y = Inr s2 \<longrightarrow> selection s2 = (selectedTag st, y, searchQuery st))
       \<and> (setSearchQuery st q = Inr s3 \<longrightarrow> selection s3 = (selectedTag st, selectedTopic st, q))"
proof -
  let ?s1 = "st\<lparr>selectedTag := Some t,
                 filteredIds := [i \<leftarrow> ids st. \<exists>b. entities st i = Some b
                                   \<and> includes_opt (tags b) (Some t)]\<rparr>"
  have tag: "setSelectedTag st (Some t) = Inr ?s1"
    using assms by (simp add: setSelectedTag_def filter_ids_total)
  have "set (ids ?s1) \<subseteq> dom (entities ?s1)" using assms by simp
  then have topic: "setSelectedTopic ?s1 (Some p) =
      Inr (?s1\<lparr>selectedTopic := Some p,
               filteredIds := [i \<leftarrow> ids ?s1. \<exists>b. entities ?s1 i = Some b
                                 \<and> includes_opt (topics b) (Some p)]\<rparr>)"
    by (simp only: setSelectedTopic_def filter_ids_total sum.case)
  have run: "dispatch_all st [SetSelectedTag (Some t), SetSelectedTopic (Some p)] =
      Inr (?s1\<lparr>selectedTopic := Some p,
               filteredIds := [i \<leftarrow> ids ?s1. \<exists>b. entities ?s1 i = Some b
                                 \<and> includes_opt (topics b) (Some p)]\<rparr>)"
    by (simp only: dispatch_all.simps reducer.simps tag topic sum.case)
  have seq: "\<exists>st'. dispatch_all st [SetSelectedTag (Some t), SetSelectedTopic (Some p)] = Inr st'
            \<and> selection st' = (Some t, Some p, searchQuery st)
            \<and> filteredIds st' = [i \<leftarrow> ids st. \<exists>b. entities st i = Some b \<and> p \<in> set (topics b)]"
    unfolding run by (simp add: selection_def includes_opt_def)
  show ?thesis
    using seq setSelectedTag_frame [of st x s1] setSelectedTopic_frame [of st y s2]
      setSearchQuery_frame [of st q s3]
    by blast
qed

theorem filter_setters_independent_witness:
  "set (ids loaded_state) \<subseteq> dom (entities loaded_state)
   \<and> map_sum id selection
       (dispatch_all loaded_state [SetSelectedTag (Some ''AI''), SetSelectedTopic (Some ''SCIENCE'')])
     = Inr (Some ''AI'', Some ''SCIENCE'', None)
   \<and> map_sum id filteredIds
       (dispatch_all loaded_state [SetSelectedTag (Some ''AI''), SetSelectedTopic (Some ''SCIENCE'')])
     = Inr [''a'', ''b'']"
proof -
  have dom: "set (ids loaded_state) \<subseteq> dom (entities loaded_state)"
    by (auto simp: loaded_state_simps)
  from filter_setters_independent [OF dom, of "''AI''" "''SCIENCE''"]
  obtain st' where
    d: "dispatch_all loaded_state [SetSelectedTag (Some ''AI''), SetSelectedTopic (Some ''SCIENCE'')]
          = Inr st'"
    and s: "selection st' = (Some ''AI'', Some ''SCIENCE'', searchQuery loaded_state)"
    and f: "filteredIds st' = [i \<leftarrow> ids loaded_state.
              \<exists>b. entities loaded_state i = Some b \<and> ''SCIENCE'' \<in> set (topics b)]"
    by blast
  have "filteredIds st' = [''a'', ''b'']"
    unfolding f by (simp add: loaded_state_simps sample_blog_def)
  then show ?thesis
    unfolding d using dom by (simp add: s loaded_state_simps)
qed

theorem selected_tag_not_cleared:
  "map_sum id selection
     (dispatch_all loaded_state [SetSelectedTag (Some ''AI''), SetSelectedTopic (Some ''SCIENCE'')])
   = Inr (Some ''AI'', Some ''SCIENCE'', None)
   \<and> map_sum id selection
     (dispatch_all loaded_state [SetSelectedTag (Some ''AI''), SetSelectedTopic (Some ''SCIENCE'')])
   \<noteq> Inr (None, Some ''SCIENCE'', None)"
  by (simp add: setSelectedTag_def setSelectedTopic_def selection_def loaded_state_simps
      includes_opt_def sample_blog_def)


subsection \<open>A fresh hit in the query cache\<close>

lemma fetchBlogs_pending_frame:
  "cache (fetchBlogs_pending st) = cache st" "pagination (fetchBlogs_pending st) = pagination st"
  "entities (fetchBlogs_pending st) = entities st" "ids (fetchBlogs_pending st) = ids st"
  "filteredIds (fetchBlogs_pending st) = filteredIds st"
  by (simp_all add: fetchBlogs_pending_def)

lemma fetchFilteredBlogs_pending_frame:
  "cache (fetchFilteredBlogs_pending st) = cache st"
  "pagination (fetchFilteredBlogs_pending st) = pagination st"
  "entities (fetchFilteredBlogs_pending st) = entities st"
  "ids (fetchFilteredBlogs_pending st) = ids st"
  "filteredIds (fetchFilteredBlogs_pending st) = filteredIds st"
  by (simp_all add: fetchFilteredBlogs_pending_def)

lemma fetchBlogs_fulfilled_empty:
  "fetchBlogs_fulfilled st \<lparr>blogs = [], pl_pagination = pagination st\<rparr> a now =
     st\<lparr>status := (status st)\<lparr>st_fetchBlogs := Succeeded\<rparr>\<rparr>"
  by (simp add: fetchBlogs_fulfilled_def)

lemma fetchFilteredBlogs_fulfilled_empty:
  "fetchFilteredBlogs_fulfilled st Filtered_cached =
     st\<lparr>status := (status st)\<lparr>st_fetchFilteredBlogs := Succeeded\<rparr>\<rparr>"
  by (simp add: fetchFilteredBlogs_fulfilled_def)

text \<open>
  C5. When the query cache holds a fresh entry for the signature that \<open>fetchBlogs\<close> is
  asked for, its payload creator answers with an empty payload and issues no network
  request, and the fulfilled reducer that receives this payload changes the status field
  only: entities, ordered ids, visible ids, pagination and the cache itself are what they
  were before the dispatch. The same holds of \<open>fetchFilteredBlogs\<close> for a fresh entry under
  the signature it is asked for.
\<close>

theorem fresh_hit_short_circuit:
  "(cache_fresh (cache st (blogs_cacheKey (default_num (arg_page a) 1)
        (default_num (arg_limit a) 10) (arg_tag a) (arg_topic a) (arg_query a))) now \<longrightarrow>
      (let sp = fetchBlogs_pending st;
           p = \<lparr>blogs = [], pl_pagination = pagination st\<rparr>;
           st' = fetchBlogs_fulfilled sp p a now'
       in fetchBlogs sp a now = CacheHit p
          \<and> st' = sp\<lparr>status := (status sp)\<lparr>st_fetchBlogs := Succeeded\<rparr>\<rparr>
          \<and> entities st' = entities st \<and> ids st' = ids st
          \<and> filteredIds st' = filteredIds st \<and> pagination st' = pagination st
          \<and> cache st' = cache st))
   \<and> (cache_fresh (cache st (filter_cacheKey (f_tag fa) (f_topic fa)
        (default_num (f_page fa) 1) (default_num (f_limit fa) 10))) now \<longrightarrow>
      (let sp = fetchFilteredBlogs_pending st;
           p = Filtered_cached;
           st' = fetchFilteredBlogs_fulfilled sp p
       in fetchFilteredBlogs sp fa now = CacheHit p
          \<and> st' = sp\<lparr>status := (status sp)\<lparr>st_fetchFilteredBlogs := Succeeded\<rparr>\<rparr>
          \<and> entities st' = entities st \<and> ids st' = ids st
          \<and> filteredIds st' = filteredIds st \<and> pagination st' = pagination st
          \<and> cache st' = cache st))"
proof (intro conjI impI)
  assume fresh: "cache_fresh (cache st (blogs_cacheKey (default_num (arg_page a) 1)
        (default_num (arg_limit a) 10) (arg_tag a) (arg_topic a) (arg_query a))) now"
  have hit: "fetchBlogs (fetchBlogs_pending st) a now =
               CacheHit \<lparr>blogs = [], pl_pagination = pagination st\<rparr>"
    using fresh by (simp add: fetchBlogs_def Let_def fetchBlogs_pending_frame)
  have red: "fetchBlogs_fulfilled (fetchBlogs_pending st)
               \<lparr>blogs = [], pl_pagination = pagination st\<rparr> a now' =
             (fetchBlogs_pending st)\<lparr>status := (status (fetchBlogs_pending st))
                                         \<lparr>st_fetchBlogs := Succeeded\<rparr>\<rparr>"
    using fetchBlogs_fulfilled_empty [of "fetchBlogs_pending st" a now']
    by (simp add: fetchBlogs_pending_frame)
  show "let sp = fetchBlogs_pending st;
           p = \<lparr>blogs = [], pl_pagination = pagination st\<rparr>;
           st' = fetchBlogs_fulfilled sp p a now'
       in fetchBlogs sp a now = CacheHit p
          \<and> st' = sp\<lparr>status := (status sp)\<lparr>st_fetchBlogs := Succeeded\<rparr>\<rparr>
          \<and> entities st' = entities st \<and> ids st' = ids st
          \<and> filteredIds st' = filteredIds st \<and> pagination st' = pagination st
          \<and> cache st' = cache st"
    unfolding Let_def red hit by (simp add: fetchBlogs_pending_frame)
next
  assume fresh: "cache_fresh (cache st (filter_cacheKey (f_tag fa) (f_topic fa)
        (default_num (f_page fa) 1) (default_num (f_limit fa) 10))) now"
  have fhit: "fetchFilteredBlogs (fetchFilteredBlogs_pending st) fa now =
               CacheHit Filtered_cached"
    using fresh by (simp add: fetchFilteredBlogs_def Let_def fetchFilteredBlogs_pending_frame)
  show "let sp = fetchFilteredBlogs_pending st;
           p = Filtered_cached;
           st' = fetchFilteredBlogs_fulfilled sp p
       in fetchFilteredBlogs sp fa now = CacheHit p
          \<and> st' = sp\<lparr>status := (status sp)\<lparr>st_fetchFilteredBlogs := Succeeded\<rparr>\<rparr>
          \<and> entities st' = entities st \<and> ids st' = ids st
          \<and> filteredIds st' = filteredIds st \<and> pagination st' = pagination st
          \<and> cache st' = cache st"
    unfolding Let_def fhit fetchFilteredBlogs_fulfilled_empty
    by (simp add: fetchFilteredBlogs_pending_frame)
qed

lemma loaded_state_reachable: "blog_reachable loaded_state"
  unfolding loaded_state_def
  by (intro blog_reachable.fetchBlogs_fulfilled blog_reachable.initial)

lemma loaded_state_fresh:
  "cache_fresh (cache loaded_state (blogs_cacheKey (default_num (arg_page (page_args 1)) 1)
      (default_num (arg_limit (page_args 1)) 10) (arg_tag (page_args 1)) (arg_topic (page_args 1))
      (arg_query (page_args 1)))) 1000"
  by (simp add: loaded_state_def fetchBlogs_fulfilled_def Let_def page_args_def default_num_def
      or_num_def cache_fresh_def CACHE_DURATION_def sample_page_def)

lemma cached_state_fresh:
  "cache_fresh (cache cached_state (filter_cacheKey (f_tag filter_args) (f_topic filter_args)
      (default_num (f_page filter_args) 1) (default_num (f_limit filter_args) 10))) 1000"
  by (simp add: cached_state_def filter_args_def default_num_def cache_fresh_def
      CACHE_DURATION_def)

text \<open>
  The first half at the state that the store holds once the first page has arrived, one
  second after the reducer has stored the entry; the second half at a state into which an
  entry under a filter signature has been put by hand, since no reducer stores one.
\<close>

theorem fresh_hit_short_circuit_witness:
  "blog_reachable loaded_state
   \<and> cache_fresh (cache loaded_state (blogs_cacheKey 1 10 None None None)) 1000
   \<and> fetchBlogs (fetchBlogs_pending loaded_state) (page_args 1) 1000 =
       CacheHit \<lparr>blogs = [], pl_pagination = \<lparr>currentPage = 1, totalPages = 2, totalBlogs = 3\<rparr>\<rparr>
   \<and> ids (fetchBlogs_fulfilled (fetchBlogs_pending loaded_state)
        \<lparr>blogs = [], pl_pagination = pagination loaded_state\<rparr> (page_args 1) 1001) = [''a'', ''b'']
   \<and> pagination (fetchBlogs_fulfilled (fetchBlogs_pending loaded_state)
        \<lparr>blogs = [], pl_pagination = pagination loaded_state\<rparr> (page_args 1) 1001) =
       \<lparr>currentPage = 1, totalPages = 2, totalBlogs = 3\<rparr>
   \<and> cache_fresh (cache cached_state (filter_cacheKey (Some ''ai'') None 1 10)) 1000
   \<and> fetchFilteredBlogs (fetchFilteredBlogs_pending cached_state) filter_args 1000 =
       CacheHit Filtered_cached
   \<and> filteredIds (fetchFilteredBlogs_fulfilled (fetchFilteredBlogs_pending cached_state)
        Filtered_cached) = [''a'', ''b'']"
proof -
  have p: "pagination loaded_state = \<lparr>currentPage = 1, totalPages = 2, totalBlogs = 3\<rparr>"
    and i: "ids loaded_state = [''a'', ''b'']" and f: "filteredIds loaded_state = [''a'', ''b'']"
    by (simp_all add: loaded_state_def fetchBlogs_fulfilled_def Let_def
        sample_page_def initialState_def spread_set_def normalize_result_def sample_blog_def)
  have fc: "filteredIds cached_state = [''a'', ''b'']"
    by (simp add: cached_state_def f)
  have one: "fetchBlogs (fetchBlogs_pending loaded_state) (page_args 1) 1000 =
       CacheHit \<lparr>blogs = [], pl_pagination = \<lparr>currentPage = 1, totalPages = 2, totalBlogs = 3\<rparr>\<rparr>
     \<and> ids (fetchBlogs_fulfilled (fetchBlogs_pending loaded_state)
        \<lparr>blogs = [], pl_pagination = pagination loaded_state\<rparr> (page_args 1) 1001) = [''a'', ''b'']
     \<and> pagination (fetchBlogs_fulfilled (fetchBlogs_pending loaded_state)
        \<lparr>blogs = [], pl_pagination = pagination loaded_state\<rparr> (page_args 1) 1001) =
       \<lparr>currentPage = 1, totalPages = 2, totalBlogs = 3\<rparr>"
    using fresh_hit_short_circuit [where st = loaded_state and a = "page_args 1" and now = 1000
        and now' = 1001, THEN conjunct1] loaded_state_fresh
    by (simp add: Let_def p i fetchBlogs_pending_frame)
  have two: "fetchFilteredBlogs (fetchFilteredBlogs_pending cached_state) filter_args 1000 =
       CacheHit Filtered_cached
     \<and> filteredIds (fetchFilteredBlogs_fulfilled (fetchFilteredBlogs_pending cached_state)
        Filtered_cached) = [''a'', ''b'']"
    using fresh_hit_short_circuit [where st = cached_state and fa = filter_args and now = 1000,
        THEN conjunct2] cached_state_fresh
    by (simp add: Let_def fc fetchFilteredBlogs_pending_frame)
  show ?thesis
    using one two loaded_state_reachable loaded_state_fresh cached_state_fresh
    by (simp add: page_args_def filter_args_def default_num_def)
qed

text \<open>
  The only reducer that writes the query cache is the fulfilled reducer of \<open>fetchBlogs\<close>,
  under a key that begins with \<open>blogs:\<close>; the keys that \<open>fetchFilteredBlogs\<close> looks up
  begin with \<open>filter:\<close>, so an entry under such a key is never one the slice has stored.
\<close>

lemma filter_key_not_written:
  "cache (fetchBlogs_fulfilled st payload a now) (filter_cacheKey tg tp pg lm) =
     cache st (filter_cacheKey tg tp pg lm)"
  by (simp add: fetchBlogs_fulfilled_def Let_def blogs_cacheKey_def filter_cacheKey_def)

lemma cache_kept:
  "cache (fetchBlogs_pending st) = cache st"
  "cache (fetchBlogs_rejected st msg) = cache st"
  "cache (fetchFilteredBlogs_pending st) = cache st"
  "cache (fetchFilteredBlogs_fulfilled st fp) = cache st"
  "cache (fetchFilteredBlogs_rejected st fmsg) = cache st"
  "cache (createBlog_pending st arg now c u) = cache st"
  "cache (createBlog_fulfilled st b) = cache st"
  "cache (createBlog_rejected st msg) = cache st"
  by (simp_all add: fetchBlogs_pending_def fetchBlogs_rejected_def fetchFilteredBlogs_pending_def
      fetchFilteredBlogs_fulfilled_def fetchFilteredBlogs_rejected_def createBlog_pending_def
      createBlog_fulfilled_def createBlog_rejected_def Let_def split: option.splits)

lemma cache_kept_by_setters:
  "setSelectedTag st x = Inr st' \<Longrightarrow> cache st' = cache st"
  "setSelectedTopic st y = Inr st' \<Longrightarrow> cache st' = cache st"
  "setSearchQuery st q = Inr st' \<Longrightarrow> cache st' = cache st"
  by (auto simp: setSelectedTag_def setSelectedTopic_def setSearchQuery_def Let_def
      split: sum.splits if_splits)

lemma cache_kept_by_slug_reducers:
  "cache (fetchSlugBlog_pending st) = cache st"
  "cache (fetchSlugBlog_fulfilled st b) = cache st"
  "cache (fetchSlugBlog_rejected st msg) = cache st"
  by (simp_all add: fetchSlugBlog_pending_def fetchSlugBlog_fulfilled_def
      fetchSlugBlog_rejected_def)

lemma no_filter_entry:
  "blog_reachable st \<Longrightarrow> cache st (filter_cacheKey tg tp pg lm) = None"
proof (induction rule: blog_reachable.induct)
  case initial
  show ?case by (simp add: initialState_def)
next
  case (action st act st')
  then show ?case
    by (cases act) (auto simp: initialState_def dest: cache_kept_by_setters)
qed (simp_all add: cache_kept cache_kept_by_slug_reducers filter_key_not_written)

text \<open>
  So in every state of the slice \<open>fetchFilteredBlogs\<close> goes to the network, whatever it is
  asked for and whenever.
\<close>

lemma fetchFilteredBlogs_always_requests:
  "blog_reachable st \<Longrightarrow> \<exists>r. fetchFilteredBlogs st fa now = NetworkRequest r"
  by (simp add: fetchFilteredBlogs_def Let_def no_filter_entry cache_fresh_def)

subsection \<open>Optimistic create and its rollback\<close>

lemma temp_id_prefix: "startsWith (temp_id now) ''temp-''"
  by (simp add: startsWith_def temp_id_def)

lemma find_temp_front: "find_temp (temp_id now # xs) = Some (temp_id now)"
  using temp_id_prefix [of now] by (simp add: find_temp_def temp_id_def)

lemma createBlog_rollback_fields:
  "ids (createBlog_rejected (createBlog_pending st arg now c u) msg) =
     filter (\<lambda>i. i \<noteq> temp_id now) (ids st)"
  "filteredIds (createBlog_rejected (createBlog_pending st arg now c u) msg) =
     filter (\<lambda>i. i \<noteq> temp_id now) (filteredIds st)"
  "entities (createBlog_rejected (createBlog_pending st arg now c u) msg) =
     (entities st)(temp_id now := None)"
  by (simp_all add: createBlog_rejected_def createBlog_pending_def Let_def find_temp_front)

lemma filter_neq_id: "x \<notin> set xs \<Longrightarrow> filter (\<lambda>i. i \<noteq> x) xs = xs"
  by (induction xs) auto

text \<open>
  C6, as the reducers have it. Let \<open>temp-now\<close> be the temporary id that the pending reducer
  of \<open>createBlog\<close> makes. After the pending reducer and then the rejected reducer, that id is
  in neither list and has no entity, whatever the state was. When the id did not occur in
  the state before (no entity, in neither list), the entities, the ordered ids and the
  visible ids are exactly what they were; and when the state held no temporary id at all,
  none is left.
\<close>

theorem createBlog_rollback:
  "(let st' = createBlog_rejected (createBlog_pending st arg now c u) msg; tid = temp_id now
    in tid \<notin> set (ids st') \<and> tid \<notin> set (filteredIds st') \<and> entities st' tid = None
       \<and> (entities st tid = None \<and> tid \<notin> set (ids st) \<and> tid \<notin> set (filteredIds st) \<longrightarrow>
            entities st' = entities st \<and> ids st' = ids st \<and> filteredIds st' = filteredIds st)
       \<and> ((\<forall>i. startsWith i ''temp-'' \<longrightarrow>
              entities st i = None \<and> i \<notin> set (ids st) \<and> i \<notin> set (filteredIds st)) \<longrightarrow>
           (\<forall>i. startsWith i ''temp-'' \<longrightarrow>
              entities st' i = None \<and> i \<notin> set (ids st') \<and> i \<notin> set (filteredIds st'))))"
proof -
  let ?st' = "createBlog_rejected (createBlog_pending st arg now c u) msg"
  let ?tid = "temp_id now"
  have gone: "?tid \<notin> set (ids ?st') \<and> ?tid \<notin> set (filteredIds ?st') \<and> entities ?st' ?tid = None"
    by (simp add: createBlog_rollback_fields)
  have restore: "entities ?st' = entities st \<and> ids ?st' = ids st \<and> filteredIds ?st' = filteredIds st"
    if "entities st ?tid = None" "?tid \<notin> set (ids st)" "?tid \<notin> set (filteredIds st)"
    using that by (simp add: createBlog_rollback_fields filter_neq_id fun_upd_idem)
  have none_left: "\<forall>i. startsWith i ''temp-'' \<longrightarrow>
        entities ?st' i = None \<and> i \<notin> set (ids ?st') \<and> i \<notin> set (filteredIds ?st')"
    if clean: "\<forall>i. startsWith i ''temp-'' \<longrightarrow>
        entities st i = None \<and> i \<notin> set (ids st) \<and> i \<notin> set (filteredIds st)"
  proof -
    from clean temp_id_prefix [of now]
    have "entities st ?tid = None" "?tid \<notin> set (ids st)" "?tid \<notin> set (filteredIds st)"
      by blast+
    then have "entities ?st' = entities st \<and> ids ?st' = ids st \<and> filteredIds ?st' = filteredIds st"
      by (rule restore)
    with clean show ?thesis by simp
  qed
  show ?thesis
    unfolding Let_def using gone restore none_left by blast
qed

theorem createBlog_rollback_witness:
  "entities loaded_state (temp_id 7) = None \<and> temp_id 7 \<notin> set (ids loaded_state)
   \<and> temp_id 7 \<notin> set (filteredIds loaded_state)
   \<and> ids (createBlog_pending loaded_state sample_create 7 7 8) = [''temp-7'', ''a'', ''b'']
   \<and> ids (createBlog_rejected (createBlog_pending loaded_state sample_create 7 7 8) ''No network'')
       = [''a'', ''b'']
   \<and> filteredIds (createBlog_rejected (createBlog_pending loaded_state sample_create 7 7 8) ''No network'')
       = [''a'', ''b'']
   \<and> entities (createBlog_rejected (createBlog_pending loaded_state sample_create 7 7 8) ''No network'')
       = entities loaded_state"
proof -
  have l: "ids loaded_state = [''a'', ''b'']" "filteredIds loaded_state = [''a'', ''b'']"
    "entities loaded_state (temp_id 7) = None"
    by (simp_all add: loaded_state_def fetchBlogs_fulfilled_def Let_def initialState_def
        sample_page_def sample_blog_def spread_set_def normalize_result_def temp_id_def)
  have t: "temp_id 7 = ''temp-7''" by code_simp
  have r: "entities (createBlog_rejected (createBlog_pending loaded_state sample_create 7 7 8) ''No network'')
             = entities loaded_state
        \<and> ids (createBlog_rejected (createBlog_pending loaded_state sample_create 7 7 8) ''No network'')
             = ids loaded_state
        \<and> filteredIds (createBlog_rejected (createBlog_pending loaded_state sample_create 7 7 8) ''No network'')
             = filteredIds loaded_state"
    using createBlog_rollback [of loaded_state sample_create 7 7 8 "''No network''"] l
    by (simp add: Let_def t)
  have p: "ids (createBlog_pending loaded_state sample_create 7 7 8) = [''temp-7'', ''a'', ''b'']"
    by (simp add: createBlog_pending_def Let_def l t)
  show ?thesis
    using r p l by (simp add: t)
qed

text \<open>
  Two creates are in flight, with the temporary ids of the clock readings 5 and 7, when a
  third one is dispatched at the clock reading 7 again and fails: the rollback takes the
  second create's provisional record with it, and the first one's temporary id stays.
\<close>

theorem createBlog_rollback_not_restoring:
  "ids two_pending = [''temp-7'', ''temp-5'']
   \<and> ids (createBlog_rejected (createBlog_pending two_pending sample_create 7 7 7) ''No network'')
       = [''temp-5'']
   \<and> ids (createBlog_rejected (createBlog_pending two_pending sample_create 7 7 7) ''No network'')
       \<noteq> ids two_pending
   \<and> entities two_pending ''temp-7'' \<noteq> None
   \<and> entities (createBlog_rejected (createBlog_pending two_pending sample_create 7 7 7) ''No network'')
        ''temp-7'' = None
   \<and> startsWith ''temp-5'' ''temp-''"
proof -
  have t: "temp_id 7 = ''temp-7''" "temp_id 5 = ''temp-5''" by code_simp+
  have i: "ids two_pending = [''temp-7'', ''temp-5'']"
    by (simp add: two_pending_def createBlog_pending_def Let_def t initialState_def)
  have e: "entities two_pending ''temp-7'' \<noteq> None"
    by (simp add: two_pending_def createBlog_pending_def Let_def t)
  show ?thesis
    using e by (simp add: createBlog_rollback_fields i t startsWith_def)
qed

subsection \<open>Partial update through \<open>PATCH\<close>\<close>

lemma PATCH_no_slug:
  "\<not> truthy slugParam \<Longrightarrow>
   PATCH vt vp d slugParam request now = (Json_error 400 ''Slug is required for editing'', d)"
  by (simp add: PATCH_def)

lemma PATCH_body:
  assumes "truthy slugParam" "body \<noteq> JNull"
  shows "PATCH vt vp d slugParam (Some body) now =
     (if nothing_supplied body
      then (Json_error 400 ''At least one field must be provided for update'', d)
      else
        (case d (or_empty slugParam) of
           None \<Rightarrow> (Json_error 404 ''Blog not found'', d)
         | Some existingBlog \<Rightarrow>
             (case validateTagsAndTopics vt vp (property body ''tags'') (property body ''topics'') of
                Inl e \<Rightarrow> (internal_error, d)
              | Inr (parsedTags, parsedTopics) \<Rightarrow>
                  (let blogData =
                         \<lparr>d_title = if_truthy (property body ''title''),
                          d_subTitle = if_truthy (property body ''subTitle''),
                          d_content = if_truthy (property body ''content''),
                          d_bannerUrl = if_truthy (property body ''bannerUrl''),
                          d_video = property body ''video'',
                          d_tags = if_nonempty parsedTags,
                          d_topics = if_nonempty parsedTopics\<rparr>
                   in case prisma_update d (or_empty slugParam) existingBlog blogData now of
                        None \<Rightarrow> (internal_error, d)
                      | Some (result, d') \<Rightarrow> (Json_blog 200 result, d')))))"
  using assms by (cases body; hypsubst; simp add: PATCH_def)

lemma trim_all_strings: "trim_all xs = Inr ts \<Longrightarrow> ts = map trim (strings_in xs)"
  by (induction xs arbitrary: ts rule: trim_all.induct) (auto split: sum.splits)

lemma trim_all_total: "list_all is_string xs \<Longrightarrow> trim_all xs = Inr (map trim (strings_in xs))"
  by (induction xs rule: trim_all.induct) auto

lemma parse_vocabulary_Inr:
  "parse_vocabulary valid v = Inr ts \<Longrightarrow> ts = [x \<leftarrow> map trim (submitted v). x \<in> set valid]"
  by (auto simp: parse_vocabulary_def submitted_def dest: trim_all_strings
      split: option.splits json.splits sum.splits)

lemma parse_vocabulary_total:
  "strings_only v \<Longrightarrow>
   parse_vocabulary valid v = Inr [x \<leftarrow> map trim (submitted v). x \<in> set valid]"
  by (auto simp: parse_vocabulary_def submitted_def strings_only_def trim_all_total
      split: option.splits json.splits)

lemma validateTagsAndTopics_Inr:
  "validateTagsAndTopics vt vp tgs tps = Inr (pt, pp) \<Longrightarrow>
   pt = [x \<leftarrow> map trim (submitted tgs). x \<in> set vt]
   \<and> pp = [x \<leftarrow> map trim (submitted tps). x \<in> set vp]"
  by (auto simp: validateTagsAndTopics_def dest: parse_vocabulary_Inr split: sum.splits)

lemma validateTagsAndTopics_total:
  "strings_only tgs \<Longrightarrow> strings_only tps \<Longrightarrow>
   validateTagsAndTopics vt vp tgs tps =
     Inr ([x \<leftarrow> map trim (submitted tgs). x \<in> set vt],
          [x \<leftarrow> map trim (submitted tps). x \<in> set vp])"
  by (simp add: validateTagsAndTopics_def parse_vocabulary_total)

lemma update_string_Some:
  "update_string (if_truthy v) old = Some t \<Longrightarrow> t = new_text v old"
  by (cases v rule: truthy_json.cases)
     (auto simp: update_string_def if_truthy_def new_text_def split: if_splits)

lemma update_string_total:
  "text_or_falsy v \<Longrightarrow> update_string (if_truthy v) old = Some (new_text v old)"
  by (cases v rule: truthy_json.cases)
     (auto simp: update_string_def if_truthy_def new_text_def text_or_falsy_def)

lemma update_nullable_Some:
  "update_nullable v old = Some t \<Longrightarrow> t = new_video v old"
  by (cases v rule: truthy_json.cases)
     (auto simp: update_nullable_def new_video_def)

lemma update_nullable_total:
  "text_or_null v \<Longrightarrow> update_nullable v old = Some (new_video v old)"
  by (cases v rule: truthy_json.cases)
     (auto simp: update_nullable_def new_video_def text_or_null_def)


lemma prisma_update_Some:
  assumes "prisma_update d slg e data now = Some (r, d')"
  shows "\<exists>t s c b v.
           update_string (d_title data) (title e) = Some t
         \<and> update_string (d_subTitle data) (subTitle e) = Some s
         \<and> update_string (d_content data) (content e) = Some c
         \<and> update_string (d_bannerUrl data) (bannerUrl e) = Some b
         \<and> update_nullable (d_video data) (video e) = Some v
         \<and> r = e\<lparr>title := t, subTitle := s, content := c, bannerUrl := b, video := v,
                  tags := (case d_tags data of None \<Rightarrow> tags e | Some x \<Rightarrow> x),
                  topics := (case d_topics data of None \<Rightarrow> topics e | Some x \<Rightarrow> x),
                  updatedAt := now\<rparr>
         \<and> d' = d(slg \<mapsto> r)"
  using assms by (auto simp: prisma_update_def Let_def split: option.splits)

lemma prisma_update_total:
  assumes "update_string (d_title data) (title e) = Some t"
    "update_string (d_subTitle data) (subTitle e) = Some s"
    "update_string (d_content data) (content e) = Some c"
    "update_string (d_bannerUrl data) (bannerUrl e) = Some b"
    "update_nullable (d_video data) (video e) = Some v"
  shows "\<exists>r. prisma_update d slg e data now = Some (r, d(slg \<mapsto> r))"
  using assms by (simp add: prisma_update_def Let_def)

lemma if_nonempty_case:
  "(case if_nonempty xs of None \<Rightarrow> old | Some v \<Rightarrow> v) = (if xs = [] then old else xs)"
  by (simp add: if_nonempty_def)

lemma PATCH_200:
  assumes s: "truthy slugParam" and e: "d (or_empty slugParam) = Some e"
    and ok: "PATCH vt vp d slugParam (Some body) now = (Json_blog 200 r, d')"
  shows "d' = d(or_empty slugParam \<mapsto> r)
     \<and> title r = new_text (property body ''title'') (title e)
     \<and> subTitle r = new_text (property body ''subTitle'') (subTitle e)
     \<and> content r = new_text (property body ''content'') (content e)
     \<and> bannerUrl r = new_text (property body ''bannerUrl'') (bannerUrl e)
     \<and> video r = new_video (property body ''video'') (video e)
     \<and> tags r = (let parsed = [x \<leftarrow> map trim (submitted (property body ''tags'')). x \<in> set vt]
                 in if parsed = [] then tags e else parsed)
     \<and> topics r = (let parsed = [x \<leftarrow> map trim (submitted (property body ''topics'')). x \<in> set vp]
                   in if parsed = [] then topics e else parsed)
     \<and> blogId r = blogId e \<and> slug r = slug e \<and> createdAt r = createdAt e"
proof -
  have nn: "body \<noteq> JNull"
    using ok s by (auto simp: PATCH_def internal_error_def)
  note pb = PATCH_body [where slugParam = slugParam and body = body and vt = vt and vp = vp
      and d = d and now = now, OF s nn]
  have ns: "\<not> nothing_supplied body"
    using ok by (auto simp: pb split: if_splits)
  obtain pt pp where v: "validateTagsAndTopics vt vp (property body ''tags'')
      (property body ''topics'') = Inr (pt, pp)"
    using ok by (auto simp: pb ns e internal_error_def split: sum.splits)
  let ?data = "\<lparr>d_title = if_truthy (property body ''title''),
                 d_subTitle = if_truthy (property body ''subTitle''),
                 d_content = if_truthy (property body ''content''),
                 d_bannerUrl = if_truthy (property body ''bannerUrl''),
                 d_video = property body ''video'',
                 d_tags = if_nonempty pt, d_topics = if_nonempty pp\<rparr>"
  have up: "prisma_update d (or_empty slugParam) e ?data now = Some (r, d')"
    using ok by (auto simp: pb ns e v Let_def internal_error_def split: option.splits)
  from prisma_update_Some [OF up] obtain t sb c b vd where
    u: "update_string (if_truthy (property body ''title'')) (title e) = Some t"
      "update_string (if_truthy (property body ''subTitle'')) (subTitle e) = Some sb"
      "update_string (if_truthy (property body ''content'')) (content e) = Some c"
      "update_string (if_truthy (property body ''bannerUrl'')) (bannerUrl e) = Some b"
      "update_nullable (property body ''video'') (video e) = Some vd"
    and r: "r = e\<lparr>title := t, subTitle := sb, content := c, bannerUrl := b, video := vd,
                  tags := (case if_nonempty pt of None \<Rightarrow> tags e | Some x \<Rightarrow> x),
                  topics := (case if_nonempty pp of None \<Rightarrow> topics e | Some x \<Rightarrow> x),
                  updatedAt := now\<rparr>"
    and d': "d' = d(or_empty slugParam \<mapsto> r)"
    by auto
  from validateTagsAndTopics_Inr [OF v]
  have p: "pt = [x \<leftarrow> map trim (submitted (property body ''tags'')). x \<in> set vt]"
    "pp = [x \<leftarrow> map trim (submitted (property body ''topics'')). x \<in> set vp]"
    by simp_all
  show ?thesis
    using d' update_string_Some [OF u(1)] update_string_Some [OF u(2)]
      update_string_Some [OF u(3)] update_string_Some [OF u(4)] update_nullable_Some [OF u(5)]
    by (simp add: r if_nonempty_case p Let_def)
qed

lemma PATCH_well_typed:
  assumes s: "truthy slugParam" and e: "d (or_empty slugParam) = Some e"
    and nn: "body \<noteq> JNull" and ns: "\<not> nothing_supplied body" and wt: "well_typed body"
  shows "\<exists>r. PATCH vt vp d slugParam (Some body) now = (Json_blog 200 r, d(or_empty slugParam \<mapsto> r))"
proof -
  note pb = PATCH_body [where slugParam = slugParam and body = body and vt = vt and vp = vp
      and d = d and now = now, OF s nn]
  have v: "validateTagsAndTopics vt vp (property body ''tags'') (property body ''topics'') =
      Inr ([x \<leftarrow> map trim (submitted (property body ''tags'')). x \<in> set vt],
           [x \<leftarrow> map trim (submitted (property body ''topics'')). x \<in> set vp])"
    using wt by (simp add: well_typed_def validateTagsAndTopics_total)
  let ?data = "\<lparr>d_title = if_truthy (property body ''title''),
                 d_subTitle = if_truthy (property body ''subTitle''),
                 d_content = if_truthy (property body ''content''),
                 d_bannerUrl = if_truthy (property body ''bannerUrl''),
                 d_video = property body ''video'',
                 d_tags = if_nonempty [x \<leftarrow> map trim (submitted (property body ''tags'')). x \<in> set vt],
                 d_topics = if_nonempty [x \<leftarrow> map trim (submitted (property body ''topics'')). x \<in> set vp]\<rparr>"
  have "\<exists>r. prisma_update d (or_empty slugParam) e ?data now = Some (r, d(or_empty slugParam \<mapsto> r))"
    using wt
    by (intro prisma_update_total)
       (simp_all add: well_typed_def update_string_total update_nullable_total)
  then show ?thesis
    by (auto simp: pb ns e v Let_def)
qed

lemma PATCH_title_only:
  assumes "truthy slugParam" "d (or_empty slugParam) = Some e" "t \<noteq> []"
  shows "PATCH vt vp d slugParam (Some (title_patch t)) now =
           (Json_blog 200 (e\<lparr>title := t, updatedAt := now\<rparr>),
            d(or_empty slugParam \<mapsto> e\<lparr>title := t, updatedAt := now\<rparr>))"
  using assms
  by (simp add: PATCH_def title_patch_def nothing_supplied_def validateTagsAndTopics_def
      parse_vocabulary_def prisma_update_def update_string_def update_nullable_def if_truthy_def
      if_nonempty_def Let_def)

lemma PATCH_nothing_supplied:
  "truthy slugParam \<Longrightarrow> body \<noteq> JNull \<Longrightarrow> nothing_supplied body \<Longrightarrow>
   PATCH vt vp d slugParam (Some body) now =
     (Json_error 400 ''At least one field must be provided for update'', d)"
  by (simp add: PATCH_body)

lemma PATCH_unknown_slug:
  "truthy slugParam \<Longrightarrow> body \<noteq> JNull \<Longrightarrow> \<not> nothing_supplied body \<Longrightarrow>
   d (or_empty slugParam) = None \<Longrightarrow>
   PATCH vt vp d slugParam (Some body) now = (Json_error 404 ''Blog not found'', d)"
  by (simp add: PATCH_body)

lemma PATCH_no_json:
  "truthy slugParam \<Longrightarrow> PATCH vt vp d slugParam None now = (internal_error, d)"
  "truthy slugParam \<Longrightarrow> PATCH vt vp d slugParam (Some JNull) now = (internal_error, d)"
  by (simp_all add: PATCH_def)

text \<open>
  C7, as the route has it. For a request with a slug whose record \<open>e\<close> exists: a body that
  supplies a non-empty title and nothing else stores the title and changes no other content
  field. In general, for every body other than \<open>null\<close> that supplies something and is well
  typed, the update is carried out: it is answered with 200, the record stored under the
  slug is the one returned, and in it \<open>title\<close>, \<open>subTitle\<close>, \<open>content\<close> and \<open>bannerUrl\<close>
  keep their stored value when the body's member is absent or empty; \<open>tags\<close> and
  \<open>topics\<close> keep it when the member is absent, is no array, or no submitted element is,
  once trimmed, in the vocabulary; \<open>video\<close> keeps it when the body has no such member and
  takes the body's value otherwise, an empty string included, and \<open>null\<close> clears it. A
  body other than \<open>null\<close> in which none of the seven members is truthy is answered with
  400, a missing slug with 400, and an unknown slug with 404 when the body supplies
  something, the table staying as it was.
\<close>

theorem PATCH_partial_update:
  assumes "truthy slugParam" and "d (or_empty slugParam) = Some e"
  shows "(t \<noteq> [] \<longrightarrow>
            PATCH vt vp d slugParam (Some (title_patch t)) now =
              (Json_blog 200 (e\<lparr>title := t, updatedAt := now\<rparr>),
               d(or_empty slugParam \<mapsto> e\<lparr>title := t, updatedAt := now\<rparr>)))
       \<and> (body \<noteq> JNull \<and> \<not> nothing_supplied body \<and> well_typed body \<longrightarrow>
            (\<exists>r. PATCH vt vp d slugParam (Some body) now =
                    (Json_blog 200 r, d(or_empty slugParam \<mapsto> r))
               \<and> title r = new_text (property body ''title'') (title e)
               \<and> subTitle r = new_text (property body ''subTitle'') (subTitle e)
               \<and> content r = new_text (property body ''content'') (content e)
               \<and> bannerUrl r = new_text (property body ''bannerUrl'') (bannerUrl e)
               \<and> video r = new_video (property body ''video'') (video e)
               \<and> tags r = (let parsed = [x \<leftarrow> map trim (submitted (property body ''tags'')).
                                           x \<in> set vt]
                           in if parsed = [] then tags e else parsed)
               \<and> topics r = (let parsed = [x \<leftarrow> map trim (submitted (property body ''topics'')).
                                             x \<in> set vp]
                             in if parsed = [] then topics e else parsed)
               \<and> blogId r = blogId e \<and> slug r = slug e \<and> createdAt r = createdAt e))
       \<and> (hollow \<noteq> JNull \<and> nothing_supplied hollow \<longrightarrow>
            PATCH vt vp d slugParam (Some hollow) now =
              (Json_error 400 ''At least one field must be provided for update'', d))
       \<and> (\<not> truthy noSlug \<longrightarrow>
            PATCH vt vp d noSlug request now = (Json_error 400 ''Slug is required for editing'', d))
       \<and> (truthy other \<and> d (or_empty other) = None \<and> any \<noteq> JNull \<and> \<not> nothing_supplied any \<longrightarrow>
            PATCH vt vp d other (Some any) now = (Json_error 404 ''Blog not found'', d))"
proof (intro conjI impI)
  assume "t \<noteq> []"
  with assms show "PATCH vt vp d slugParam (Some (title_patch t)) now =
      (Json_blog 200 (e\<lparr>title := t, updatedAt := now\<rparr>),
       d(or_empty slugParam \<mapsto> e\<lparr>title := t, updatedAt := now\<rparr>))"
    by (rule PATCH_title_only)
next
  assume typed: "body \<noteq> JNull \<and> \<not> nothing_supplied body \<and> well_typed body"
  with assms obtain r where
    ok: "PATCH vt vp d slugParam (Some body) now = (Json_blog 200 r, d(or_empty slugParam \<mapsto> r))"
    using PATCH_well_typed [where slugParam = slugParam and d = d and e = e and body = body
        and vt = vt and vp = vp and now = now]
    by blast
  note fields = PATCH_200 [where slugParam = slugParam and d = d and e = e and body = body
      and vt = vt and vp = vp and now = now and r = r
      and d' = "d(or_empty slugParam \<mapsto> r)", OF assms ok]
  show "\<exists>r. PATCH vt vp d slugParam (Some body) now =
                    (Json_blog 200 r, d(or_empty slugParam \<mapsto> r))
               \<and> title r = new_text (property body ''title'') (title e)
               \<and> subTitle r = new_text (property body ''subTitle'') (subTitle e)
               \<and> content r = new_text (property body ''content'') (content e)
               \<and> bannerUrl r = new_text (property body ''bannerUrl'') (bannerUrl e)
               \<and> video r = new_video (property body ''video'') (video e)
               \<and> tags r = (let parsed = [x \<leftarrow> map trim (submitted (property body ''tags'')).
                                           x \<in> set vt]
                           in if parsed = [] then tags e else parsed)
               \<and> topics r = (let parsed = [x \<leftarrow> map trim (submitted (property body ''topics'')).
                                             x \<in> set vp]
                             in if parsed = [] then topics e else parsed)
               \<and> blogId r = blogId e \<and> slug r = slug e \<and> createdAt r = createdAt e"
    using ok fields by (intro exI [of _ r]) (elim conjE, intro conjI)
next
  assume "hollow \<noteq> JNull \<and> nothing_supplied hollow"
  with assms show "PATCH vt vp d slugParam (Some hollow) now =
      (Json_error 400 ''At least one field must be provided for update'', d)"
    by (simp add: PATCH_nothing_supplied)
next
  assume "\<not> truthy noSlug"
  then show "PATCH vt vp d noSlug request now =
      (Json_error 400 ''Slug is required for editing'', d)"
    by (rule PATCH_no_slug)
next
  assume "truthy other \<and> d (or_empty other) = None \<and> any \<noteq> JNull \<and> \<not> nothing_supplied any"
  then show "PATCH vt vp d other (Some any) now = (Json_error 404 ''Blog not found'', d)"
    by (simp add: PATCH_unknown_slug)
qed

lemma sample_db_simps:
  "truthy (Some ''post-a'')" "sample_db (or_empty (Some ''post-a'')) = Some stored_blog"
  "sample_db (or_empty (Some ''post-z'')) = None" "truthy (Some ''post-z'')"
  by (simp_all add: truthy_def sample_db_def or_empty_def)

lemma sample_patch_answer:
  "PATCH sample_tags sample_topics sample_db (Some ''post-a'') (Some sample_patch) 9 =
     (Json_blog 200 (stored_blog\<lparr>subTitle := ''Second'', video := None, updatedAt := 9\<rparr>),
      sample_db(''post-a'' \<mapsto> stored_blog\<lparr>subTitle := ''Second'', video := None, updatedAt := 9\<rparr>))"
  by (simp add: PATCH_def sample_patch_def nothing_supplied_def validateTagsAndTopics_def
      parse_vocabulary_def prisma_update_def update_string_def update_nullable_def if_truthy_def
      if_nonempty_def Let_def sample_db_def or_empty_def truthy_def sample_tags_def
      strip_start.simps ws_length_def white_space_def trim_def)

theorem PATCH_partial_update_witness:
  "truthy (Some ''post-a'') \<and> sample_db (or_empty (Some ''post-a'')) = Some stored_blog
   \<and> PATCH sample_tags sample_topics sample_db (Some ''post-a'')
        (Some (title_patch ''New Title'')) 9 =
       (Json_blog 200 (stored_blog\<lparr>title := ''New Title'', updatedAt := 9\<rparr>),
        sample_db(''post-a'' \<mapsto> stored_blog\<lparr>title := ''New Title'', updatedAt := 9\<rparr>))
   \<and> video (stored_blog\<lparr>title := ''New Title'', updatedAt := 9\<rparr>) = Some ''v.mp4''
   \<and> sample_patch \<noteq> JNull \<and> \<not> nothing_supplied sample_patch \<and> well_typed sample_patch
   \<and> PATCH sample_tags sample_topics sample_db (Some ''post-a'') (Some sample_patch) 9 =
       (Json_blog 200 (stored_blog\<lparr>subTitle := ''Second'', video := None, updatedAt := 9\<rparr>),
        sample_db(''post-a'' \<mapsto> stored_blog\<lparr>subTitle := ''Second'', video := None, updatedAt := 9\<rparr>))
   \<and> title (stored_blog\<lparr>subTitle := ''Second'', video := None, updatedAt := 9\<rparr>) =
       new_text (property sample_patch ''title'') (title stored_blog)
   \<and> video (stored_blog\<lparr>subTitle := ''Second'', video := None, updatedAt := 9\<rparr>) =
       new_video (property sample_patch ''video'') (video stored_blog)
   \<and> tags (stored_blog\<lparr>subTitle := ''Second'', video := None, updatedAt := 9\<rparr>) = [''AI'']
   \<and> JObj [] \<noteq> JNull \<and> nothing_supplied (JObj [])
   \<and> PATCH sample_tags sample_topics sample_db (Some ''post-a'') (Some (JObj [])) 9 =
       (Json_error 400 ''At least one field must be provided for update'', sample_db)
   \<and> PATCH sample_tags sample_topics sample_db None (Some (title_patch ''New Title'')) 9 =
       (Json_error 400 ''Slug is required for editing'', sample_db)
   \<and> PATCH sample_tags sample_topics sample_db (Some ''post-z'')
        (Some (title_patch ''New Title'')) 9 =
       (Json_error 404 ''Blog not found'', sample_db)"
proof -
  let ?r = "stored_blog\<lparr>subTitle := ''Second'', video := None, updatedAt := 9\<rparr>"
  have n: "JObj [] \<noteq> JNull" "nothing_supplied (JObj [])"
    "title_patch ''New Title'' \<noteq> JNull" "\<not> nothing_supplied (title_patch ''New Title'')"
    "sample_patch \<noteq> JNull" "\<not> nothing_supplied sample_patch" "well_typed sample_patch"
    by (simp_all add: nothing_supplied_def title_patch_def sample_patch_def well_typed_def
        text_or_falsy_def text_or_null_def strings_only_def)
  note inst = PATCH_partial_update [where slugParam = "Some ''post-a''" and d = sample_db
      and e = stored_blog and vt = sample_tags and vp = sample_topics and now = 9,
      OF sample_db_simps(1) sample_db_simps(2)]
  have a: "PATCH sample_tags sample_topics sample_db (Some ''post-a'')
        (Some (title_patch ''New Title'')) 9 =
       (Json_blog 200 (stored_blog\<lparr>title := ''New Title'', updatedAt := 9\<rparr>),
        sample_db(''post-a'' \<mapsto> stored_blog\<lparr>title := ''New Title'', updatedAt := 9\<rparr>))"
    using inst [where t = "''New Title''"] by (simp add: or_empty_def)
  from inst [where body = sample_patch] n obtain r where
    r: "PATCH sample_tags sample_topics sample_db (Some ''post-a'') (Some sample_patch) 9 =
          (Json_blog 200 r, sample_db(or_empty (Some ''post-a'') \<mapsto> r))"
    and f: "title r = new_text (property sample_patch ''title'') (title stored_blog)"
      "video r = new_video (property sample_patch ''video'') (video stored_blog)"
    by blast
  have "r = ?r"
    using r sample_patch_answer by simp
  with r f have b: "PATCH sample_tags sample_topics sample_db (Some ''post-a'') (Some sample_patch) 9 =
       (Json_blog 200 ?r, sample_db(''post-a'' \<mapsto> ?r))
      \<and> title ?r = new_text (property sample_patch ''title'') (title stored_blog)
      \<and> video ?r = new_video (property sample_patch ''video'') (video stored_blog)"
    by (simp add: or_empty_def)
  have h: "PATCH sample_tags sample_topics sample_db (Some ''post-a'') (Some (JObj [])) 9 =
       (Json_error 400 ''At least one field must be provided for update'', sample_db)"
    using inst [where hollow = "JObj []"] n by blast
  have s: "PATCH sample_tags sample_topics sample_db None (Some (title_patch ''New Title'')) 9 =
       (Json_error 400 ''Slug is required for editing'', sample_db)"
    using inst [where noSlug = None and request = "Some (title_patch ''New Title'')"]
    by (simp add: truthy_def)
  have u: "PATCH sample_tags sample_topics sample_db (Some ''post-z'')
        (Some (title_patch ''New Title'')) 9 = (Json_error 404 ''Blog not found'', sample_db)"
    using inst [where other = "Some ''post-z''" and any = "title_patch ''New Title''"] n
      sample_db_simps
    by blast
  have v: "video (stored_blog\<lparr>title := ''New Title'', updatedAt := 9\<rparr>) = Some ''v.mp4''"
    "tags ?r = [''AI'']"
    by (simp_all add: stored_blog_def sample_blog_def)
  show ?thesis
    using a b h s u n v sample_db_simps by blast
qed

text \<open>
  A body that holds an empty video and an empty tag list, and nothing else, is not refused:
  the record is updated and its video is overwritten with the empty string. A body that
  holds an empty video and nothing else is refused with 400, and the video stays.
\<close>

theorem PATCH_empty_video_overwrites:
  "PATCH sample_tags sample_topics sample_db (Some ''post-a'')
      (Some (JObj [(''video'', JStr []), (''tags'', JArr [])])) 9 =
     (Json_blog 200 (stored_blog\<lparr>video := Some [], updatedAt := 9\<rparr>),
      sample_db(''post-a'' \<mapsto> stored_blog\<lparr>video := Some [], updatedAt := 9\<rparr>))
   \<and> video stored_blog = Some ''v.mp4''
   \<and> video (stored_blog\<lparr>video := Some [], updatedAt := 9\<rparr>) \<noteq> video stored_blog
   \<and> PATCH sample_tags sample_topics sample_db (Some ''post-a'')
       (Some (JObj [(''video'', JStr [])])) 9 =
     (Json_error 400 ''At least one field must be provided for update'', sample_db)"
  by (simp add: PATCH_def nothing_supplied_def validateTagsAndTopics_def parse_vocabulary_def
      prisma_update_def update_string_def update_nullable_def Let_def if_truthy_def
      if_nonempty_def sample_db_def or_empty_def stored_blog_def truthy_def)

subsection \<open>Tags and topics outside the vocabulary\<close>

lemma POST_body:
  assumes "body \<noteq> JNull"
  shows "POST vt vp d (Some body) newId now =
     (if \<not> truthy_json (property body ''title'') \<or> \<not> truthy_json (property body ''subTitle'')
         \<or> \<not> truthy_json (property body ''content'')
         \<or> \<not> truthy_json (property body ''bannerUrl'')
         \<or> \<not> truthy_json (property body ''slug'')
      then (Json_error 400
              ''Missing required fields: title, subTitle, content, bannerUrl, slug'', d)
      else
        (case findUnique d (property body ''slug'') of
           None \<Rightarrow> (internal_error, d)
         | Some (Some existingBlog) \<Rightarrow>
             (Json_error 409 ''Blog with this slug already exists'', d)
         | Some None \<Rightarrow>
             (case validateTagsAndTopics vt vp (property body ''tags'') (property body ''topics'') of
                Inl e \<Rightarrow> (internal_error, d)
              | Inr (parsedTags, parsedTopics) \<Rightarrow>
                  (case prisma_create d newId now (property body ''title'')
                          (property body ''subTitle'') (property body ''content'')
                          (property body ''bannerUrl'') (property body ''slug'')
                          (property body ''video'') parsedTags parsedTopics of
                     None \<Rightarrow> (internal_error, d)
                   | Some (result, d') \<Rightarrow> (Json_blog 201 result, d')))))"
  using assms by (cases body; hypsubst; simp add: POST_def)

lemma prisma_create_Some:
  "prisma_create d newId now ttl sub cnt banner slg vid tgs tps = Some (r, d') \<Longrightarrow>
   d' = d(slug r \<mapsto> r) \<and> tags r = tgs \<and> topics r = tps \<and> string_column slg = Some (slug r)"
  by (auto simp: prisma_create_def Let_def split: option.splits)

lemma required_text_string:
  "required_text v \<Longrightarrow> \<exists>s. v = Some (JStr s) \<and> s \<noteq> []"
  by (cases v rule: truthy_json.cases) (simp_all add: required_text_def)

lemma text_or_null_column: "text_or_null v \<Longrightarrow> \<exists>c. nullable_column v = Some c"
  by (cases v rule: truthy_json.cases) (simp_all add: text_or_null_def nullable_column_def)

lemma trim_all_refused: "\<not> list_all is_string xs \<Longrightarrow> trim_all xs = Inl TypeError"
  by (induction xs rule: trim_all.induct) (auto split: sum.splits)

lemma parse_vocabulary_refused:
  "\<not> strings_only v \<Longrightarrow> parse_vocabulary valid v = Inl TypeError"
  by (auto simp: parse_vocabulary_def strings_only_def trim_all_refused
      split: option.splits json.splits)

lemma parse_vocabulary_error: "parse_vocabulary valid v = Inl e \<Longrightarrow> e = TypeError"
  using parse_vocabulary_refused [of v valid] parse_vocabulary_total [of v valid]
  by (cases "strings_only v") simp_all

lemma validateTagsAndTopics_refused:
  "\<not> strings_only tgs \<or> \<not> strings_only tps \<Longrightarrow>
   validateTagsAndTopics vt vp tgs tps = Inl TypeError"
  by (auto simp: validateTagsAndTopics_def parse_vocabulary_refused
      dest: parse_vocabulary_error split: sum.splits)

lemma POST_201:
  assumes ok: "POST vt vp d (Some body) newId now = (Json_blog 201 r, d')"
  shows "d' = d(slug r \<mapsto> r)
     \<and> tags r = [x \<leftarrow> map trim (submitted (property body ''tags'')). x \<in> set vt]
     \<and> topics r = [x \<leftarrow> map trim (submitted (property body ''topics'')). x \<in> set vp]"
proof -
  have nn: "body \<noteq> JNull"
    using ok by (auto simp: POST_def internal_error_def)
  note pb = POST_body [where body = body and vt = vt and vp = vp and d = d and newId = newId
      and now = now, OF nn]
  have free: "findUnique d (property body ''slug'') = Some None"
    using ok by (auto simp: pb internal_error_def split: if_splits option.splits)
  have req: "\<not> (\<not> truthy_json (property body ''title'') \<or> \<not> truthy_json (property body ''subTitle'')
         \<or> \<not> truthy_json (property body ''content'')
         \<or> \<not> truthy_json (property body ''bannerUrl'')
         \<or> \<not> truthy_json (property body ''slug''))"
    using ok by (auto simp: pb split: if_splits)
  obtain pt pp where v: "validateTagsAndTopics vt vp (property body ''tags'')
      (property body ''topics'') = Inr (pt, pp)"
    using ok req by (auto simp: pb free internal_error_def split: sum.splits)
  have cr: "prisma_create d newId now (property body ''title'') (property body ''subTitle'')
      (property body ''content'') (property body ''bannerUrl'') (property body ''slug'')
      (property body ''video'') pt pp = Some (r, d')"
    using ok req by (auto simp: pb free v internal_error_def split: option.splits)
  from validateTagsAndTopics_Inr [OF v] prisma_create_Some [OF cr]
  show ?thesis by simp
qed

lemma POST_valid:
  assumes vc: "valid_create body" and free: "d (slug_of body) = None"
  shows "\<exists>r. POST vt vp d (Some body) newId now = (Json_blog 201 r, d(slug_of body \<mapsto> r))"
proof -
  from vc obtain t s c b sl where
    m: "property body ''title'' = Some (JStr t)" "t \<noteq> []"
      "property body ''subTitle'' = Some (JStr s)" "s \<noteq> []"
      "property body ''content'' = Some (JStr c)" "c \<noteq> []"
      "property body ''bannerUrl'' = Some (JStr b)" "b \<noteq> []"
      "property body ''slug'' = Some (JStr sl)" "sl \<noteq> []"
    unfolding valid_create_def by (blast dest: required_text_string)
  from vc obtain v where vd: "nullable_column (property body ''video'') = Some v"
    unfolding valid_create_def by (blast dest: text_or_null_column)
  have nn: "body \<noteq> JNull"
    using m(1) by auto
  have so: "strings_only (property body ''tags'')" "strings_only (property body ''topics'')"
    using vc by (simp_all add: valid_create_def)
  have sl: "slug_of body = sl"
    by (simp add: slug_of_def m)
  show ?thesis
    using free
    by (simp add: POST_body [OF nn] m findUnique_def string_column_def sl
        validateTagsAndTopics_total [OF so] prisma_create_def vd Let_def)
qed

lemma POST_refused:
  assumes req: "required_text (property body ''title'')" "required_text (property body ''subTitle'')"
      "required_text (property body ''content'')" "required_text (property body ''bannerUrl'')"
      "required_text (property body ''slug'')"
    and free: "d (slug_of body) = None"
    and bad: "\<not> strings_only (property body ''tags'') \<or> \<not> strings_only (property body ''topics'')"
  shows "POST vt vp d (Some body) newId now = (internal_error, d)"
proof -
  from req obtain t s c b sl where
    m: "property body ''title'' = Some (JStr t)" "t \<noteq> []"
      "property body ''subTitle'' = Some (JStr s)" "s \<noteq> []"
      "property body ''content'' = Some (JStr c)" "c \<noteq> []"
      "property body ''bannerUrl'' = Some (JStr b)" "b \<noteq> []"
      "property body ''slug'' = Some (JStr sl)" "sl \<noteq> []"
    by (blast dest: required_text_string)
  have nn: "body \<noteq> JNull"
    using m(1) by auto
  have sl: "slug_of body = sl"
    by (simp add: slug_of_def m)
  show ?thesis
    using free
    by (simp add: POST_body [OF nn] m findUnique_def string_column_def sl
        validateTagsAndTopics_refused [OF bad])
qed

lemma PATCH_refused:
  assumes s: "truthy slugParam" and e: "d (or_empty slugParam) = Some e"
    and bad: "\<not> strings_only (property body ''tags'') \<or> \<not> strings_only (property body ''topics'')"
  shows "PATCH vt vp d slugParam (Some body) now = (internal_error, d)"
proof -
  from bad obtain xs where
    "property body ''tags'' = Some (JArr xs) \<or> property body ''topics'' = Some (JArr xs)"
    by (auto simp: strings_only_def split: option.splits json.splits)
  then have nn: "body \<noteq> JNull" and ns: "\<not> nothing_supplied body"
    by (auto simp: nothing_supplied_def)
  show ?thesis
    by (simp add: PATCH_body [OF s nn] ns e validateTagsAndTopics_refused [OF bad])
qed

text \<open>
  C9, as the routes have it. Every submitted string is first trimmed of surrounding white
  space, and the trimmed values that belong to the vocabulary are kept, in submitted
  order; the others are dropped without an error. A member that is no array counts as an
  empty one. Whenever a create is answered with 201, the stored tags and topics are exactly
  these values, and it is answered so when the five required members are non-empty strings,
  the slug is free, the video is a string, \<open>null\<close> or absent, and the arrays hold strings
  only. Whenever an update is answered with 200, the stored tags (topics) are these values
  when there is at least one, and the ones stored before otherwise; it is answered so for an
  existing record and a well-typed body that supplies something. An array with an element
  that is no string is not filtered: the request is answered with 500 and the table stays
  as it was.
\<close>

theorem vocabulary_filtering:
  "(POST vt vp d (Some body) newId now = (Json_blog 201 r, d') \<longrightarrow>
      d' = d(slug r \<mapsto> r)
      \<and> tags r = [x \<leftarrow> map trim (submitted (property body ''tags'')). x \<in> set vt]
      \<and> topics r = [x \<leftarrow> map trim (submitted (property body ''topics'')). x \<in> set vp])
   \<and> (valid_create typed \<and> d (slug_of typed) = None \<longrightarrow>
      (\<exists>r'. POST vt vp d (Some typed) newId now = (Json_blog 201 r', d(slug_of typed \<mapsto> r'))))
   \<and> (truthy slugParam \<and> d (or_empty slugParam) = Some e
      \<and> PATCH vt vp d slugParam (Some pbody) now = (Json_blog 200 u, du) \<longrightarrow>
      du = d(or_empty slugParam \<mapsto> u)
      \<and> tags u = (let parsed = [x \<leftarrow> map trim (submitted (property pbody ''tags'')). x \<in> set vt]
                  in if parsed = [] then tags e else parsed)
      \<and> topics u = (let parsed = [x \<leftarrow> map trim (submitted (property pbody ''topics'')).
                                    x \<in> set vp]
                    in if parsed = [] then topics e else parsed))
   \<and> (truthy slugParam \<and> d (or_empty slugParam) = Some e
      \<and> ptyped \<noteq> JNull \<and> \<not> nothing_supplied ptyped \<and> well_typed ptyped \<longrightarrow>
      (\<exists>u'. PATCH vt vp d slugParam (Some ptyped) now =
              (Json_blog 200 u', d(or_empty slugParam \<mapsto> u'))))
   \<and> (required_text (property mixed ''title'') \<and> required_text (property mixed ''subTitle'')
      \<and> required_text (property mixed ''content'') \<and> required_text (property mixed ''bannerUrl'')
      \<and> required_text (property mixed ''slug'') \<and> d (slug_of mixed) = None
      \<and> \<not> (strings_only (property mixed ''tags'') \<and> strings_only (property mixed ''topics'')) \<longrightarrow>
      POST vt vp d (Some mixed) newId now = (internal_error, d))
   \<and> (truthy slugParam \<and> d (or_empty slugParam) = Some e
      \<and> \<not> (strings_only (property pmixed ''tags'') \<and> strings_only (property pmixed ''topics'')) \<longrightarrow>
      PATCH vt vp d slugParam (Some pmixed) now = (internal_error, d))"
proof (intro conjI impI)
  assume ok: "POST vt vp d (Some body) newId now = (Json_blog 201 r, d')"
  note stored = POST_201 [OF ok]
  from stored show "d' = d(slug r \<mapsto> r)" by (elim conjE)
  from stored show "tags r = [x \<leftarrow> map trim (submitted (property body ''tags'')). x \<in> set vt]"
    by (elim conjE)
  from stored show "topics r = [x \<leftarrow> map trim (submitted (property body ''topics'')). x \<in> set vp]"
    by (elim conjE)
next
  assume "valid_create typed \<and> d (slug_of typed) = None"
  then show "\<exists>r'. POST vt vp d (Some typed) newId now = (Json_blog 201 r', d(slug_of typed \<mapsto> r'))"
    using POST_valid [where body = typed and d = d and vt = vt and vp = vp and newId = newId
        and now = now]
    by blast
next
  assume a: "truthy slugParam \<and> d (or_empty slugParam) = Some e
      \<and> PATCH vt vp d slugParam (Some pbody) now = (Json_blog 200 u, du)"
  then have s: "truthy slugParam" and e: "d (or_empty slugParam) = Some e"
    and ok: "PATCH vt vp d slugParam (Some pbody) now = (Json_blog 200 u, du)"
    by simp_all
  note stored = PATCH_200 [where slugParam = slugParam and d = d and e = e and body = pbody
      and vt = vt and vp = vp and now = now and r = u and d' = du, OF s e ok]
  from stored show "du = d(or_empty slugParam \<mapsto> u)" by (elim conjE)
  from stored show "tags u = (let parsed = [x \<leftarrow> map trim (submitted (property pbody ''tags'')).
                                        x \<in> set vt]
                  in if parsed = [] then tags e else parsed)" by (elim conjE)
  from stored show "topics u = (let parsed = [x \<leftarrow> map trim (submitted (property pbody ''topics'')).
                                    x \<in> set vp]
                    in if parsed = [] then topics e else parsed)" by (elim conjE)
next
  assume "truthy slugParam \<and> d (or_empty slugParam) = Some e
      \<and> ptyped \<noteq> JNull \<and> \<not> nothing_supplied ptyped \<and> well_typed ptyped"
  then show "\<exists>u'. PATCH vt vp d slugParam (Some ptyped) now =
              (Json_blog 200 u', d(or_empty slugParam \<mapsto> u'))"
    using PATCH_well_typed [where slugParam = slugParam and d = d and e = e and body = ptyped
        and vt = vt and vp = vp and now = now]
    by blast
next
  assume "required_text (property mixed ''title'') \<and> required_text (property mixed ''subTitle'')
      \<and> required_text (property mixed ''content'') \<and> required_text (property mixed ''bannerUrl'')
      \<and> required_text (property mixed ''slug'') \<and> d (slug_of mixed) = None
      \<and> \<not> (strings_only (property mixed ''tags'') \<and> strings_only (property mixed ''topics''))"
  then show "POST vt vp d (Some mixed) newId now = (internal_error, d)"
    using POST_refused [where body = mixed and d = d and vt = vt and vp = vp and newId = newId
        and now = now]
    by blast
next
  assume "truthy slugParam \<and> d (or_empty slugParam) = Some e
      \<and> \<not> (strings_only (property pmixed ''tags'') \<and> strings_only (property pmixed ''topics''))"
  then show "PATCH vt vp d slugParam (Some pmixed) now = (internal_error, d)"
    using PATCH_refused [where slugParam = slugParam and d = d and e = e and body = pmixed
        and vt = vt and vp = vp and now = now]
    by blast
qed

lemma trim_samples:
  "trim '' AI'' = ''AI''" "trim ''BOGUS'' = ''BOGUS''" "trim ''SCIENCE'' = ''SCIENCE''"
  "trim ''science'' = ''science''" "trim ''AI'' = ''AI''"
  "trim (CHR 0xC2 # CHR 0xA0 # ''AI '') = ''AI''"
  by code_simp+

lemma sample_post_answer:
  "POST sample_tags sample_topics Map.empty (Some sample_post) ''id1'' 3 =
     (Json_blog 201 created_blog, [''new'' \<mapsto> created_blog])"
  by (simp add: POST_def sample_post_def findUnique_def string_column_def nullable_column_def
      validateTagsAndTopics_def parse_vocabulary_def prisma_create_def Let_def trim_samples
      sample_tags_def sample_topics_def created_blog_def)

lemma retag_patch_answer:
  "PATCH sample_tags sample_topics sample_db (Some ''post-a'') (Some retag_patch) 9 =
     (Json_blog 200 (stored_blog\<lparr>tags := [''AI'', ''AI''], updatedAt := 9\<rparr>),
      sample_db(''post-a'' \<mapsto> stored_blog\<lparr>tags := [''AI'', ''AI''], updatedAt := 9\<rparr>))"
  by (simp add: PATCH_def retag_patch_def nothing_supplied_def validateTagsAndTopics_def
      parse_vocabulary_def prisma_update_def update_string_def update_nullable_def if_truthy_def
      if_nonempty_def Let_def sample_db_def or_empty_def truthy_def sample_tags_def trim_samples)

lemma sample_post_valid:
  "valid_create sample_post" "slug_of sample_post = ''new''"
  "required_text (property mixed_post ''title'')" "required_text (property mixed_post ''subTitle'')"
  "required_text (property mixed_post ''content'')"
  "required_text (property mixed_post ''bannerUrl'')"
  "required_text (property mixed_post ''slug'')" "slug_of mixed_post = ''new''"
  "\<not> strings_only (property mixed_post ''tags'')"
  "retag_patch \<noteq> JNull" "\<not> nothing_supplied retag_patch" "well_typed retag_patch"
  "\<not> strings_only (property mixed_patch ''tags'')"
  by (simp_all add: valid_create_def sample_post_def mixed_post_def retag_patch_def
      mixed_patch_def required_text_def slug_of_def text_or_null_def text_or_falsy_def
      strings_only_def nothing_supplied_def well_typed_def)

theorem vocabulary_filtering_witness:
  "POST sample_tags sample_topics Map.empty (Some sample_post) ''id1'' 3 =
     (Json_blog 201 created_blog, [''new'' \<mapsto> created_blog])
   \<and> tags created_blog = [''AI''] \<and> topics created_blog = [''SCIENCE'']
   \<and> valid_create sample_post \<and> Map.empty (slug_of sample_post) = (None :: Blog option)
   \<and> (\<exists>r'. POST sample_tags sample_topics Map.empty (Some sample_post) ''id1'' 3 =
             (Json_blog 201 r', [''new'' \<mapsto> r']))
   \<and> truthy (Some ''post-a'') \<and> sample_db (or_empty (Some ''post-a'')) = Some stored_blog
   \<and> PATCH sample_tags sample_topics sample_db (Some ''post-a'') (Some retag_patch) 9 =
       (Json_blog 200 (stored_blog\<lparr>tags := [''AI'', ''AI''], updatedAt := 9\<rparr>),
        sample_db(''post-a'' \<mapsto> stored_blog\<lparr>tags := [''AI'', ''AI''], updatedAt := 9\<rparr>))
   \<and> topics (stored_blog\<lparr>tags := [''AI'', ''AI''], updatedAt := 9\<rparr>) = topics stored_blog
   \<and> retag_patch \<noteq> JNull \<and> \<not> nothing_supplied retag_patch \<and> well_typed retag_patch
   \<and> (\<exists>u'. PATCH sample_tags sample_topics sample_db (Some ''post-a'') (Some retag_patch) 9 =
             (Json_blog 200 u', sample_db(''post-a'' \<mapsto> u')))
   \<and> \<not> strings_only (property mixed_post ''tags'')
   \<and> POST sample_tags sample_topics Map.empty (Some mixed_post) ''id1'' 3 =
       (internal_error, Map.empty)
   \<and> \<not> strings_only (property mixed_patch ''tags'')
   \<and> PATCH sample_tags sample_topics sample_db (Some ''post-a'') (Some mixed_patch) 9 =
       (internal_error, sample_db)"
proof -
  let ?u = "stored_blog\<lparr>tags := [''AI'', ''AI''], updatedAt := 9\<rparr>"
  note create = vocabulary_filtering [where d = "Map.empty" and vt = sample_tags
      and vp = sample_topics and newId = "''id1''" and now = 3]
  note update = vocabulary_filtering [where d = sample_db and vt = sample_tags
      and vp = sample_topics and now = 9 and slugParam = "Some ''post-a''" and e = stored_blog]
  have a: "tags created_blog =
             [x \<leftarrow> map trim (submitted (property sample_post ''tags'')). x \<in> set sample_tags]
         \<and> topics created_blog =
             [x \<leftarrow> map trim (submitted (property sample_post ''topics'')). x \<in> set sample_topics]"
    using create [where body = sample_post and r = created_blog
        and d' = "[''new'' \<mapsto> created_blog]"] sample_post_answer
    by blast
  have b: "\<exists>r'. POST sample_tags sample_topics Map.empty (Some sample_post) ''id1'' 3 =
             (Json_blog 201 r', [''new'' \<mapsto> r'])"
    using create [where typed = sample_post] sample_post_valid by simp
  have c: "topics ?u = (let parsed = [x \<leftarrow> map trim (submitted (property retag_patch ''topics'')).
                                    x \<in> set sample_topics]
                    in if parsed = [] then topics stored_blog else parsed)"
    using update [where pbody = retag_patch and u = ?u and du = "sample_db(''post-a'' \<mapsto> ?u)"]
      retag_patch_answer sample_db_simps
    by blast
  have c': "topics ?u = topics stored_blog"
    using c by (simp add: retag_patch_def submitted_def)
  have f: "\<exists>u'. PATCH sample_tags sample_topics sample_db (Some ''post-a'') (Some retag_patch) 9 =
             (Json_blog 200 u', sample_db(''post-a'' \<mapsto> u'))"
    using update [where ptyped = retag_patch] sample_post_valid sample_db_simps
    by (simp add: or_empty_def)
  have g: "POST sample_tags sample_topics Map.empty (Some mixed_post) ''id1'' 3 =
       (internal_error, Map.empty)"
    using create [where mixed = mixed_post] sample_post_valid by simp
  have h: "PATCH sample_tags sample_topics sample_db (Some ''post-a'') (Some mixed_patch) 9 =
       (internal_error, sample_db)"
    using update [where pmixed = mixed_patch] sample_post_valid sample_db_simps by blast
  have t: "tags created_blog = [''AI'']" "topics created_blog = [''SCIENCE'']"
    by (simp_all add: created_blog_def)
  show ?thesis
    using a b c' f g h t sample_post_answer retag_patch_answer sample_post_valid sample_db_simps
    by simp
qed

text \<open>
  A create that submits \<open>" AI"\<close> and \<open>"BOGUS"\<close> stores the tag \<open>AI\<close>, although none of the
  submitted values is in the vocabulary as submitted; an update whose only tag is outside
  the vocabulary keeps the stored tags instead of storing none; and a create whose tags
  hold a number beside a tag of the vocabulary is refused with 500 and stores nothing.
\<close>

theorem stored_tags_differ_from_submitted:
  "POST sample_tags sample_topics Map.empty (Some sample_post) ''id1'' 3 =
     (Json_blog 201 created_blog, [''new'' \<mapsto> created_blog])
   \<and> submitted (property sample_post ''tags'') = ['' AI'', ''BOGUS'']
   \<and> tags created_blog = [''AI'']
   \<and> [x \<leftarrow> ['' AI'', ''BOGUS'']. x \<in> set sample_tags] = []
   \<and> PATCH sample_tags sample_topics sample_db (Some ''post-a'') (Some bogus_patch) 9 =
       (Json_blog 200 (stored_blog\<lparr>title := ''T'', updatedAt := 9\<rparr>),
        sample_db(''post-a'' \<mapsto> stored_blog\<lparr>title := ''T'', updatedAt := 9\<rparr>))
   \<and> submitted (property bogus_patch ''tags'') = [''BOGUS'']
   \<and> tags (stored_blog\<lparr>title := ''T'', updatedAt := 9\<rparr>) = [''AI'']
   \<and> [x \<leftarrow> [''BOGUS'']. x \<in> set sample_tags] = []
   \<and> property mixed_post ''tags'' = Some (JArr [JStr ''AI'', JNum 5])
   \<and> POST sample_tags sample_topics Map.empty (Some mixed_post) ''id1'' 3 =
       (Json_error 500 ''Internal server error'', Map.empty)"
proof -
  have b: "PATCH sample_tags sample_topics sample_db (Some ''post-a'') (Some bogus_patch) 9 =
       (Json_blog 200 (stored_blog\<lparr>title := ''T'', updatedAt := 9\<rparr>),
        sample_db(''post-a'' \<mapsto> stored_blog\<lparr>title := ''T'', updatedAt := 9\<rparr>))"
    by (simp add: PATCH_def bogus_patch_def nothing_supplied_def validateTagsAndTopics_def
        parse_vocabulary_def prisma_update_def update_string_def update_nullable_def
        if_truthy_def if_nonempty_def Let_def sample_db_def or_empty_def truthy_def
        sample_tags_def trim_samples)
  have c: "POST sample_tags sample_topics Map.empty (Some mixed_post) ''id1'' 3 =
       (Json_error 500 ''Internal server error'', Map.empty)"
    by (simp add: POST_def mixed_post_def findUnique_def string_column_def
        validateTagsAndTopics_def parse_vocabulary_def internal_error_def)
  show ?thesis
    using b c sample_post_answer
    by (simp add: sample_post_def bogus_patch_def mixed_post_def submitted_def created_blog_def
        sample_tags_def stored_blog_def sample_blog_def)
qed

subsection \<open>Paging parameters of the search and topics routes\<close>

lemma paging_bounds:
  assumes "parseInt (z_default pageParam ''1'') = Some a"
    and "parseInt (z_default limitParam ''10'') = Some b"
  shows "\<exists>pg lm. searchQuerySchema_page pageParam = Some pg
            \<and> searchQuerySchema_limit limitParam = Some lm
            \<and> getQuerySchema_page pageParam = Some pg \<and> getQuerySchema_limit limitParam = Some lm
            \<and> pg = max 1 a \<and> lm = min 100 (max 1 b) \<and> 1 \<le> pg \<and> 1 \<le> lm \<and> lm \<le> 100
            \<and> offset_of (Some pg) (Some lm) = Some ((pg - 1) * lm) \<and> 0 \<le> (pg - 1) * lm"
  using assms
  by (simp add: searchQuerySchema_page_def searchQuerySchema_limit_def getQuerySchema_page_def
      getQuerySchema_limit_def offset_of_def)

lemma paging_at_most_100:
  assumes "parseInt (z_default pageParam ''1'') = Some a"
    and "parseInt (z_default limitParam ''10'') = Some b"
  shows "(\<exists>bs. search_GET_blogs rows pageParam limitParam = Some bs \<and> length bs \<le> 100)
       \<and> (\<exists>bs. topics_GET_blogs rows pageParam limitParam = Some bs \<and> length bs \<le> 100)"
proof -
  from paging_bounds [OF assms] obtain pg lm where
    b: "searchQuerySchema_page pageParam = Some pg" "searchQuerySchema_limit limitParam = Some lm"
      "getQuerySchema_page pageParam = Some pg" "getQuerySchema_limit limitParam = Some lm"
      "lm \<le> 100"
    by blast
  have "length (findMany rows ((pg - 1) * lm) lm) \<le> 100"
    using b(5) by (simp add: findMany_def)
  then show ?thesis
    by (simp add: search_GET_blogs_def topics_GET_blogs_def b offset_of_def Let_def)
qed

lemma parseInt_abc: "parseInt ''abc'' = None"
  by code_simp

lemma parseInt_empty: "parseInt [] = None"
  by code_simp

text \<open>
  C10 at the request \<open>GET /api/search?limit=abc\<close> (and the same for the topics route, and
  for an empty value as in \<open>?limit=\<close>): \<open>parseInt\<close> gives \<open>NaN\<close>, \<open>Math.max\<close> and
  \<open>Math.min\<close> pass it on, and the schema accepts the request with an effective limit and
  an offset that are \<open>NaN\<close>: no number from 1 to 100, and no offset that is at least 0.
\<close>

theorem limit_not_a_number:
  "searchQuerySchema_limit (Some ''abc'') = None
   \<and> offset_of (searchQuerySchema_page None) (searchQuerySchema_limit (Some ''abc'')) = None
   \<and> getQuerySchema_limit (Some ''abc'') = None
   \<and> offset_of (getQuerySchema_page None) (getQuerySchema_limit (Some ''abc'')) = None
   \<and> searchQuerySchema_limit (Some []) = None
   \<and> searchQuerySchema_page (Some []) = None"
  by (simp add: searchQuerySchema_limit_def getQuerySchema_limit_def searchQuerySchema_page_def
      z_default_def parseInt_abc parseInt_empty offset_of_def split: option.splits)

subsection \<open>Infinite scroll stops at the last page\<close>

lemma blogs_effect_guard:
  "bv_totalPages (blogs_effect v) \<le> bv_page (blogs_effect v) \<Longrightarrow>
   bv_observer (blogs_effect v) = None"
  by (simp add: blogs_effect_def split: if_splits)

lemma blogs_reachable_guard:
  "blogs_reachable v \<Longrightarrow> bv_totalPages v \<le> bv_page v \<Longrightarrow> bv_observer v = None"
proof (induction rule: blogs_reachable.induct)
  case (mount v)
  then show ?case by (rule blogs_effect_guard)
next
  case (step v e)
  show ?case
  proof (cases e)
    case (B_Sentinel b)
    show ?thesis
    proof (cases "bv_observer v")
      case None
      with step B_Sentinel show ?thesis by simp
    next
      case (Some c)
      show ?thesis
      proof (cases b)
        case True
        with step.prems B_Sentinel Some show ?thesis
          by (simp add: blogs_callback_def Let_def blogs_effect_guard)
      next
        case False
        with step B_Sentinel Some show ?thesis by (simp add: blogs_callback_def)
      qed
    qed
  next
    case (B_Store s1 s2 tp)
    with step.prems show ?thesis by (simp add: blogs_effect_guard)
  next
    case (B_Params tg tp)
    with step.prems show ?thesis by (simp add: blogs_effect_guard)
  next
    case B_Retry
    with step.prems show ?thesis by (simp add: blogs_effect_guard)
  qed
qed

lemma tags_effect_guard:
  "tv_totalPages (tags_effect v) \<le> tv_currentPage (tags_effect v) \<Longrightarrow>
   tv_observer (tags_effect v) = None"
  by (simp add: tags_effect_def Let_def split: if_splits)

lemma tags_reachable_guard:
  "tags_reachable v \<Longrightarrow> tv_totalPages v \<le> tv_currentPage v \<Longrightarrow> tv_observer v = None"
proof (induction rule: tags_reachable.induct)
  case (mount v)
  then show ?case by (rule tags_effect_guard)
next
  case (step v e)
  show ?case
  proof (cases e)
    case (T_Sentinel b)
    with step show ?thesis by (cases "tv_observer v") auto
  next
    case (T_Timer i)
    with step show ?thesis by (simp split: prod.splits if_splits)
  next
    case (T_Store s cp tp)
    with step.prems show ?thesis by (simp add: tags_effect_guard)
  next
    case (T_Query q)
    with step.prems show ?thesis by (simp add: tags_effect_guard)
  next
    case T_Clear
    with step.prems show ?thesis by (simp add: tags_effect_guard)
  qed
qed

text \<open>
  Every pending call of the debounced handler was scheduled through an observer that was
  connected at the time, and so has captured a page below the total it has captured and a
  status that is not loading: when it runs, it asks for a page that is at most that total.
\<close>

lemma set_debounced: "set (debounced slot c a ts) \<subseteq> insert (slot, c, a) (set ts)"
  by (auto simp: debounced_def)

lemma set_remove_nth: "set (take i xs @ drop (Suc i) xs) \<subseteq> set xs"
  using set_take_subset [of i xs] set_drop_subset [of "Suc i" xs] by auto

lemma tags_effect_timers: "tv_timers (tags_effect v) = tv_timers v"
  by (simp add: tags_effect_def Let_def)

lemma tags_effect_closure:
  "tv_observer (tags_effect v) = Some p \<Longrightarrow>
   tc_status (snd p) \<noteq> Loading \<and> tc_currentPage (snd p) < tc_totalPages (snd p)"
  by (auto simp: tags_effect_def Let_def split: if_splits)

lemma tags_reachable_closures:
  "tags_reachable v \<Longrightarrow>
   (\<forall>p. tv_observer v = Some p \<longrightarrow>
       tc_status (snd p) \<noteq> Loading \<and> tc_currentPage (snd p) < tc_totalPages (snd p))
   \<and> (\<forall>t \<in> set (tv_timers v).
       tc_status (fst (snd t)) \<noteq> Loading
       \<and> tc_currentPage (fst (snd t)) < tc_totalPages (fst (snd t)))"
proof (induction rule: tags_reachable.induct)
  case (mount v)
  show ?case
    using tags_effect_closure [of "v\<lparr>tv_observer := None, tv_timers := []\<rparr>"]
    by (simp add: tags_effect_timers)
next
  case (step v e)
  show ?case
  proof (cases e)
    case (T_Sentinel b)
    show ?thesis
    proof (cases "tv_observer v")
      case None
      with step T_Sentinel show ?thesis by simp
    next
      case (Some p)
      obtain slot c where p: "p = (slot, c)" by (cases p)
      have sub: "set (debounced slot c b (tv_timers v)) \<subseteq> insert (slot, c, b) (set (tv_timers v))"
        by (rule set_debounced)
      have c: "tc_status c \<noteq> Loading \<and> tc_currentPage c < tc_totalPages c"
        using step.IH Some p by simp
      have eq: "fst (tags_step v e) = v\<lparr>tv_timers := debounced slot c b (tv_timers v)\<rparr>"
        by (simp add: T_Sentinel Some p)
      have "\<forall>t \<in> set (debounced slot c b (tv_timers v)).
              tc_status (fst (snd t)) \<noteq> Loading
              \<and> tc_currentPage (fst (snd t)) < tc_totalPages (fst (snd t))"
      proof
        fix t assume "t \<in> set (debounced slot c b (tv_timers v))"
        with sub have "t = (slot, c, b) \<or> t \<in> set (tv_timers v)" by auto
        then show "tc_status (fst (snd t)) \<noteq> Loading
              \<and> tc_currentPage (fst (snd t)) < tc_totalPages (fst (snd t))"
          using c step.IH by auto
      qed
      then show ?thesis
        unfolding eq using step.IH by simp
    qed
  next
    case (T_Timer i)
    show ?thesis
    proof (cases "i < length (tv_timers v)")
      case True
      have sub: "set (take i (tv_timers v) @ drop (Suc i) (tv_timers v)) \<subseteq> set (tv_timers v)"
        by (rule set_remove_nth)
      have eq: "fst (tags_step v e) =
                  v\<lparr>tv_timers := take i (tv_timers v) @ drop (Suc i) (tv_timers v)\<rparr>"
        using True by (simp add: T_Timer split: prod.splits)
      show ?thesis
        unfolding eq using step.IH sub by (simp del: set_append) blast
    next
      case False
      with step.IH show ?thesis by (simp add: T_Timer)
    qed
  next
    case (T_Store s cp tp)
    have eq: "fst (tags_step v e) =
                tags_effect (v\<lparr>tv_status := s, tv_currentPage := cp, tv_totalPages := tp\<rparr>)"
      by (simp add: T_Store)
    show ?thesis
      unfolding eq
      using step.IH tags_effect_closure [of "v\<lparr>tv_status := s, tv_currentPage := cp, tv_totalPages := tp\<rparr>"]
      by (simp add: tags_effect_timers)
  next
    case (T_Query q)
    have eq: "fst (tags_step v e) = tags_effect (v\<lparr>tv_tagsQuery := q\<rparr>)"
      by (simp add: T_Query)
    show ?thesis
      unfolding eq
      using step.IH tags_effect_closure [of "v\<lparr>tv_tagsQuery := q\<rparr>"]
      by (simp add: tags_effect_timers)
  next
    case T_Clear
    let ?w = "v\<lparr>tv_tagsQuery := [],
                 tv_currentPage := t_currentPage (t_pagination tag_initialState),
                 tv_totalPages := t_totalPages (t_pagination tag_initialState),
                 tv_status := Loading\<rparr>"
    have eq: "fst (tags_step v e) = tags_effect ?w"
      by (simp add: T_Clear)
    show ?thesis
      unfolding eq
      using step.IH tags_effect_closure [of ?w]
      by (simp add: tags_effect_timers)
  qed
qed

text \<open>
  In every reachable state of the Blogs view whose page is at or beyond the total number
  of pages, and in every reachable state of the Tags view whose current page is, the
  sentinel's observer is disconnected, and an intersection event of the sentinel leaves the
  view as it is: nothing is dispatched and no call is scheduled. The page is the counter
  the view compares with the total: the local \<open>page\<close> of the Blogs view,
  \<open>pagination.currentPage\<close> in the Tags view. The Blogs view dispatches from the
  observer's callback itself, so that in it no page is fetched from such a state through
  the sentinel at all.
\<close>

lemma sentinel_idle_beyond_last_page:
  assumes "blogs_reachable bv" and "bv_totalPages bv \<le> bv_page bv"
    and "tags_reachable tv" and "tv_totalPages tv \<le> tv_currentPage tv"
  shows "bv_observer bv = None \<and> blogs_step bv (B_Sentinel isIntersecting) = (bv, [])
       \<and> tv_observer tv = None \<and> tags_step tv (T_Sentinel isIntersecting) = (tv, [])"
  using blogs_reachable_guard [OF assms(1,2)] tags_reachable_guard [OF assms(3,4)]
  by simp

lemma blogs_last_page_eq:
  "blogs_last_page =
     \<lparr>bv_page = 3, bv_totalPages = 3, bv_fetchBlogs = Succeeded, bv_fetchFilteredBlogs = Idle,
      bv_tag = None, bv_topic = None, bv_observer = None\<rparr>"
  by (simp add: blogs_last_page_def blogs_first_page_def blogs_effect_def blogs_callback_def
      Let_def truthy_def)

lemma tags_last_page_eq:
  "tags_last_page =
     \<lparr>tv_status = Succeeded, tv_currentPage = 3, tv_totalPages = 3, tv_tagsQuery = [],
      tv_slot = 2, tv_observer = None, tv_timers = []\<rparr>"
  by (simp add: tags_last_page_def tags_first_page_def tags_effect_def debounced_def Let_def)

lemma blogs_last_page_reachable: "blogs_reachable blogs_last_page"
proof -
  have "blogs_reachable (blogs_effect (blogs_first_page\<lparr>bv_observer := None\<rparr>))"
    by (rule blogs_reachable.mount)
  then have "blogs_reachable (blogs_effect blogs_first_page)"
    by (simp add: blogs_first_page_def)
  then show ?thesis
    unfolding blogs_last_page_def by (intro blogs_reachable.step)
qed

lemma tags_last_page_reachable: "tags_reachable tags_last_page"
proof -
  have "tags_reachable (tags_effect (tags_first_page\<lparr>tv_observer := None, tv_timers := []\<rparr>))"
    by (rule tags_reachable.mount)
  then have "tags_reachable (tags_effect tags_first_page)"
    by (simp add: tags_first_page_def)
  then show ?thesis
    unfolding tags_last_page_def by (intro tags_reachable.step)
qed

lemma last_page_idle:
  "blogs_reachable blogs_last_page \<and> bv_totalPages blogs_last_page \<le> bv_page blogs_last_page
   \<and> tags_reachable tags_last_page \<and> tv_totalPages tags_last_page \<le> tv_currentPage tags_last_page
   \<and> snd (blogs_step (blogs_effect blogs_first_page) (B_Sentinel True)) =
       [Dispatch_fetchBlogs (page_args 2)]
   \<and> blogs_step blogs_last_page (B_Sentinel True) = (blogs_last_page, [])
   \<and> tags_step tags_last_page (T_Sentinel True) = (tags_last_page, [])"
proof -
  have b: "bv_totalPages blogs_last_page \<le> bv_page blogs_last_page"
    by (simp add: blogs_last_page_eq)
  have t: "tv_totalPages tags_last_page \<le> tv_currentPage tags_last_page"
    by (simp add: tags_last_page_eq)
  have d: "snd (blogs_step (blogs_effect blogs_first_page) (B_Sentinel True)) =
       [Dispatch_fetchBlogs (page_args 2)]"
    by (simp add: blogs_first_page_def blogs_effect_def blogs_callback_def Let_def truthy_def
        page_args_def)
  from sentinel_idle_beyond_last_page [OF blogs_last_page_reachable b tags_last_page_reachable t,
      of True]
  show ?thesis
    using blogs_last_page_reachable tags_last_page_reachable b t d by simp
qed

lemma tags_cleared_eq:
  "tags_cleared =
     \<lparr>tv_status = Loading, tv_currentPage = 1, tv_totalPages = 1, tv_tagsQuery = [],
      tv_slot = 2, tv_observer = None,
      tv_timers = [(1, \<lparr>tc_status = Succeeded, tc_currentPage = 1, tc_totalPages = 3,
                         tc_tagsQuery = []\<rparr>, True)]\<rparr>"
  by (simp add: tags_cleared_def tags_first_page_def tags_effect_def debounced_def Let_def
      tag_initialState_def)

lemma tags_cleared_reachable: "tags_reachable tags_cleared"
proof -
  have "tags_reachable (tags_effect (tags_first_page\<lparr>tv_observer := None, tv_timers := []\<rparr>))"
    by (rule tags_reachable.mount)
  then have "tags_reachable (tags_effect tags_first_page)"
    by (simp add: tags_first_page_def)
  then show ?thesis
    unfolding tags_cleared_def by (intro tags_reachable.step)
qed

text \<open>
  C8 does not hold in the Tags view. The view shows page 1 of 3 when the sentinel comes
  into view, which schedules the debounced handler, and the input is cleared before the
  delay has passed: \<open>clearTags\<close> puts the pagination back to page 1 of 1, the observer is
  disconnected and an intersection event does nothing any more. The call that is pending
  is not cancelled, though: the component takes \<open>debounced\<close> from \<open>debounce\<close> and drops
  \<open>cancel\<close>, and the clean-up of the effect only disconnects the observer. When the delay
  has passed the call runs on the values it captured, page 1 of 3 and a status that is not
  loading, and dispatches \<open>fetchBlogs\<close> for page 2 from a state whose current page is the
  last one.
\<close>

theorem stale_debounced_call_fetches:
  "tags_reachable tags_cleared
   \<and> tv_currentPage tags_cleared = 1 \<and> tv_totalPages tags_cleared = 1
   \<and> tv_totalPages tags_cleared \<le> tv_currentPage tags_cleared
   \<and> tv_observer tags_cleared = None
   \<and> tags_step tags_cleared (T_Sentinel True) = (tags_cleared, [])
   \<and> snd (tags_step tags_cleared (T_Timer 0)) = [Dispatch_tag_fetchBlogs (tag_page_args 2)]"
  using tags_cleared_reachable
  by (simp add: tags_cleared_eq handleObserver_def tag_page_args_def)

end
